theory Spec2Isabelle
  imports Main "HOL-Library.Sublist"
begin

section \<open>CamPay mobile-money client: a shallow embedding of main.go\<close>

text \<open>
  The repository holds two copies of the same command-line program. The first copy
  (lines 1 to 377 of main.go) polls with a budget of 60 attempts and validates its input
  inside \<open>run\<close>; the second copy (lines 378 to 761) polls with a budget of 40 attempts
  and has the helpers \<open>promptPhone\<close>, \<open>promptAmount\<close>, \<open>normalizeStatus\<close> and
  \<open>formatAPIError\<close>. Both copies declare the same function names, so the embedding
  of a function of the first copy carries the suffix \<open>_v1\<close> and one of the second copy
  the suffix \<open>_v2\<close>.

  Go strings are byte sequences, modelled as \<open>string\<close> (a list of 8-bit characters);
  \<open>len\<close> is \<open>length\<close>. Go's \<open>int\<close> is taken at 64 bits (the build target of the
  repository's instructions is amd64).
\<close>

subsection \<open>Library functions of Go used by the program\<close>

text \<open>
  \<open>strings.ToUpper\<close> and \<open>strings.TrimSpace\<close> belong to the Go library, not to the
  repository, and they work on Unicode text: upper-casing maps every letter that has an
  upper case, and trimming removes every leading and trailing white-space character of
  Unicode. They are parameters of the model, held in a record, so that every theorem
  below holds for whatever the two functions compute.
\<close>

record strings_pkg =
  ToUpper :: "string \<Rightarrow> string"
  TrimSpace :: "string \<Rightarrow> string"

text \<open>The verb \<open>%d\<close> of package fmt: an integer in decimal, with a minus sign if negative.\<close>

fun digits :: "nat \<Rightarrow> string" where
  "digits n =
     (if n < 10 then [''0123456789'' ! n]
      else digits (n div 10) @ [''0123456789'' ! (n mod 10)])"

definition fmt_d :: "int \<Rightarrow> string" where
  "fmt_d i = (if i < 0 then CHR ''-'' # digits (nat (- i)) else digits (nat i))"

text \<open>
  \<open>time.Duration\<close> counts nanoseconds. The verb \<open>%v\<close> prints a duration through its
  \<open>String\<close> method; the program only ever prints whole seconds below one minute, and
  for those the method gives the number of seconds followed by \<open>s\<close>.
\<close>

definition Second :: int where
  "Second = 1000000000"

definition fmt_v_seconds :: "int \<Rightarrow> string" where
  "fmt_v_seconds d = fmt_d (d div Second) @ ''s''"

subsection \<open>Data model\<close>

text \<open>
  An \<open>error\<close> of Go is a value carrying its message. The field \<open>Amount\<close> of a
  transaction is a \<open>float64\<close>; no function modelled here reads it, so the record is
  parametric in its representation.
\<close>

datatype error = Errorf string

record 'f TransactionResponse =
  Reference :: string
  ExternalReference :: string
  Status :: string
  Amount :: 'f
  Currency :: string
  Operator :: string
  Code :: string
  OperatorReference :: string
  Description :: string

subsection \<open>Effects\<close>

text \<open>
  The program talks to the gateway, prints and sleeps. The observable effects are kept,
  in order, in the \<open>trace\<close> of the world; \<open>served\<close> counts the status checks made so
  far. What the gateway answers to the k-th status check (counted from 0) is an input of
  the model: either the error that \<open>checkTransactionStatus\<close> returns (a transport
  failure, a non-200 answer, a body that does not decode) or the decoded transaction.
\<close>

datatype event =
    StatusCheck string string string
  | Print string
  | Sleep int

record world =
  served :: nat
  trace :: "event list"

type_synonym 'f gateway = "nat \<Rightarrow> error + 'f TransactionResponse"

definition emit :: "event \<Rightarrow> world \<Rightarrow> world" where
  "emit e w = w\<lparr>trace := trace w @ [e]\<rparr>"

definition checkTransactionStatus ::
  "'f gateway \<Rightarrow> string \<Rightarrow> string \<Rightarrow> string \<Rightarrow> world
     \<Rightarrow> (error + 'f TransactionResponse) \<times> world" where
  "checkTransactionStatus gw baseURL token reference w =
     (gw (served w),
      emit (StatusCheck baseURL token reference) (w\<lparr>served := Suc (served w)\<rparr>))"

subsection \<open>The poller of the first copy (main.go, lines 287 to 313)\<close>

definition maxAttempts_v1 :: int where
  "maxAttempts_v1 = 60"

definition interval :: int where
  "interval = 5 * Second"

definition pending_line_v1 :: "int \<Rightarrow> string" where
  "pending_line_v1 attempt =
     '' Status: PENDING (attempt '' @ fmt_d (attempt + 1) @ ''/'' @ fmt_d maxAttempts_v1
       @ '', checking again in '' @ fmt_v_seconds interval @ ''...)'' @ [CHR 0x0A]"

definition other_line_v1 :: "string \<Rightarrow> string" where
  "other_line_v1 st =
     '' Status: '' @ st @ '' (checking again in '' @ fmt_v_seconds interval @ ''...)''
       @ [CHR 0x0A]"

definition timeout_v1 :: error where
  "timeout_v1 =
     Errorf (''transaction status check timed out after '' @ fmt_d maxAttempts_v1
       @ '' attempts'')"

function poll_loop_v1 ::
  "strings_pkg \<Rightarrow> 'f gateway \<Rightarrow> string \<Rightarrow> string \<Rightarrow> string \<Rightarrow> int \<Rightarrow> world
     \<Rightarrow> (error + 'f TransactionResponse) \<times> world" where
  "poll_loop_v1 strings gw baseURL token reference attempt w =
     (if attempt < maxAttempts_v1 then
        (case checkTransactionStatus gw baseURL token reference w of
           (Inl err, w1) \<Rightarrow> (Inl err, w1)
         | (Inr status, w1) \<Rightarrow>
             if ToUpper strings (Status status) = ''SUCCESSFUL'' then (Inr status, w1)
             else if ToUpper strings (Status status) = ''FAILED'' then (Inr status, w1)
             else
               let w2 = (if ToUpper strings (Status status) = ''PENDING''
                         then emit (Print (pending_line_v1 attempt)) w1
                         else emit (Print (other_line_v1 (Status status))) w1)
               in poll_loop_v1 strings gw baseURL token reference (attempt + 1)
                    (emit (Sleep interval) w2))
      else (Inl timeout_v1, w))"
  by pat_completeness auto
termination
  by (relation "measure (\<lambda>(strings, gw, baseURL, token, reference, attempt, w).
        nat (maxAttempts_v1 - attempt))") auto

definition pollTransactionStatus_v1 ::
  "strings_pkg \<Rightarrow> 'f gateway \<Rightarrow> string \<Rightarrow> string \<Rightarrow> string \<Rightarrow> world
     \<Rightarrow> (error + 'f TransactionResponse) \<times> world" where
  "pollTransactionStatus_v1 strings gw baseURL token reference w =
     poll_loop_v1 strings gw baseURL token reference 0 w"

subsection \<open>The poller of the second copy (main.go, lines 667 to 688 and 722 to 724)\<close>

definition normalizeStatus :: "strings_pkg \<Rightarrow> string \<Rightarrow> string" where
  "normalizeStatus strings s = ToUpper strings (TrimSpace strings s)"

definition maxAttempts_v2 :: int where
  "maxAttempts_v2 = 40"

definition status_line_v2 :: "string \<Rightarrow> int \<Rightarrow> string" where
  "status_line_v2 s attempt =
     ''Status: '' @ s @ '' (attempt '' @ fmt_d attempt @ ''/'' @ fmt_d maxAttempts_v2
       @ '')'' @ [CHR 0x0A]"

definition timeout_v2 :: error where
  "timeout_v2 = Errorf ''transaction polling timed out''"

function poll_loop_v2 ::
  "strings_pkg \<Rightarrow> 'f gateway \<Rightarrow> string \<Rightarrow> string \<Rightarrow> string \<Rightarrow> int \<Rightarrow> world
     \<Rightarrow> (error + 'f TransactionResponse) \<times> world" where
  "poll_loop_v2 strings gw baseURL token reference attempt w =
     (if attempt \<le> maxAttempts_v2 then
        (case checkTransactionStatus gw baseURL token reference w of
           (Inl err, w1) \<Rightarrow> (Inl err, w1)
         | (Inr status, w1) \<Rightarrow>
             let s = normalizeStatus strings (Status status) in
             if s = ''SUCCESSFUL'' \<or> s = ''FAILED'' then (Inr status, w1)
             else poll_loop_v2 strings gw baseURL token reference (attempt + 1)
                    (emit (Sleep interval) (emit (Print (status_line_v2 s attempt)) w1)))
      else (Inl timeout_v2, w))"
  by pat_completeness auto
termination
  by (relation "measure (\<lambda>(strings, gw, baseURL, token, reference, attempt, w).
        nat (maxAttempts_v2 + 1 - attempt))") auto

definition pollTransactionStatus_v2 ::
  "strings_pkg \<Rightarrow> 'f gateway \<Rightarrow> string \<Rightarrow> string \<Rightarrow> string \<Rightarrow> world
     \<Rightarrow> (error + 'f TransactionResponse) \<times> world" where
  "pollTransactionStatus_v2 strings gw baseURL token reference w =
     poll_loop_v2 strings gw baseURL token reference 1 w"

subsection \<open>What one round of waiting leaves in the trace\<close>

text \<open>
  A round in which the status check answers with a transaction that does not end the poll
  leaves three events: the call, the printed line and the sleep. \<open>waiting_v1\<close> and
  \<open>waiting_v2\<close> collect the events of \<open>n\<close> such rounds in a row, the first one being
  the status check number \<open>s\<close> made at the loop counter \<open>a\<close>.
\<close>

definition round_v1 ::
  "strings_pkg \<Rightarrow> string \<Rightarrow> string \<Rightarrow> string \<Rightarrow> 'f TransactionResponse \<Rightarrow> int \<Rightarrow> event list" where
  "round_v1 strings baseURL token reference t attempt =
     [StatusCheck baseURL token reference,
      Print (if ToUpper strings (Status t) = ''PENDING'' then pending_line_v1 attempt
             else other_line_v1 (Status t)),
      Sleep interval]"

definition round_v2 ::
  "strings_pkg \<Rightarrow> string \<Rightarrow> string \<Rightarrow> string \<Rightarrow> 'f TransactionResponse \<Rightarrow> int \<Rightarrow> event list" where
  "round_v2 strings baseURL token reference t attempt =
     [StatusCheck baseURL token reference,
      Print (status_line_v2 (normalizeStatus strings (Status t)) attempt),
      Sleep interval]"

definition waiting_v1 ::
  "strings_pkg \<Rightarrow> 'f gateway \<Rightarrow> string \<Rightarrow> string \<Rightarrow> string \<Rightarrow> nat \<Rightarrow> int \<Rightarrow> nat \<Rightarrow> event list" where
  "waiting_v1 strings gw baseURL token reference s a n =
     concat (map (\<lambda>i. case gw (s + i) of
                         Inl err \<Rightarrow> []
                       | Inr t \<Rightarrow> round_v1 strings baseURL token reference t (a + int i)) [0..<n])"

definition waiting_v2 ::
  "strings_pkg \<Rightarrow> 'f gateway \<Rightarrow> string \<Rightarrow> string \<Rightarrow> string \<Rightarrow> nat \<Rightarrow> int \<Rightarrow> nat \<Rightarrow> event list" where
  "waiting_v2 strings gw baseURL token reference s a n =
     concat (map (\<lambda>i. case gw (s + i) of
                         Inl err \<Rightarrow> []
                       | Inr t \<Rightarrow> round_v2 strings baseURL token reference t (a + int i)) [0..<n])"

text \<open>The statuses that end the poll in each copy.\<close>

definition terminal_v1 :: "strings_pkg \<Rightarrow> string \<Rightarrow> bool" where
  "terminal_v1 strings st =
     (ToUpper strings st = ''SUCCESSFUL'' \<or> ToUpper strings st = ''FAILED'')"

definition terminal_v2 :: "strings_pkg \<Rightarrow> string \<Rightarrow> bool" where
  "terminal_v2 strings st =
     (normalizeStatus strings st = ''SUCCESSFUL'' \<or> normalizeStatus strings st = ''FAILED'')"

subsection \<open>The library functions on ASCII text\<close>

text \<open>
  On a string of ASCII bytes \<open>strings.TrimSpace\<close> removes the leading and trailing
  bytes among tab, line feed, vertical tab, form feed, carriage return and space, and
  \<open>strings.ToUpper\<close> maps the bytes \<open>a\<close> to \<open>z\<close> to \<open>A\<close> to \<open>Z\<close>. The record
  \<open>ascii\<close> holds these two functions; it is used to evaluate the program on examples,
  all of which are strings of ASCII bytes.
\<close>

definition isSpace :: "char \<Rightarrow> bool" where
  "isSpace c = (c \<in> set [CHR 0x09, CHR 0x0A, CHR 0x0B, CHR 0x0C, CHR 0x0D, CHR 0x20])"

definition ascii_TrimSpace :: "string \<Rightarrow> string" where
  "ascii_TrimSpace s = rev (dropWhile isSpace (rev (dropWhile isSpace s)))"

definition upperByte :: "char \<Rightarrow> char" where
  "upperByte c =
     (case map_of (zip ''abcdefghijklmnopqrstuvwxyz'' ''ABCDEFGHIJKLMNOPQRSTUVWXYZ'') c of
        Some u \<Rightarrow> u
      | None \<Rightarrow> c)"

definition ascii_ToUpper :: "string \<Rightarrow> string" where
  "ascii_ToUpper s = map upperByte s"

definition ascii :: strings_pkg where
  "ascii = \<lparr>ToUpper = ascii_ToUpper, TrimSpace = ascii_TrimSpace\<rparr>"

subsection \<open>Concrete gateways used to instantiate the theorems\<close>

definition start :: world where
  "start = \<lparr>served = 0, trace = []\<rparr>"

definition sample_txn :: "string \<Rightarrow> int TransactionResponse" where
  "sample_txn st =
     \<lparr>Reference = ''r1'', ExternalReference = ''TXN-1700000000'', Status = st,
      Amount = 100, Currency = ''XAF'', Operator = ''MTN'', Code = ''CP1'',
      OperatorReference = ''op1'', Description = ''test''\<rparr>"

definition gw_broken :: "int gateway" where
  "gw_broken i =
     (if i < 2 then Inr (sample_txn ''PENDING'') else Inl (Errorf ''connection refused''))"

definition gw_pending :: "int gateway" where
  "gw_pending i = Inr (sample_txn ''PENDING'')"

definition gw_trailing_space :: "int gateway" where
  "gw_trailing_space i =
     (if i = 0 then Inr (sample_txn ''SUCCESSFUL '') else Inr (sample_txn ''PENDING''))"

definition gw_third_successful :: "int gateway" where
  "gw_third_successful i =
     (if i < 2 then Inr (sample_txn ''PENDING'') else Inr (sample_txn ''SUCCESSFUL''))"


definition gw_failed :: "int gateway" where
  "gw_failed i =
     (if i = 0 then Inr (sample_txn ''PENDING'') else Inr (sample_txn ''FAILED''))"

subsection \<open>Standard input and output\<close>

text \<open>
  The prompts read standard input a line at a time, as on a terminal. \<open>stdin\<close> holds
  the lines not yet read, each without its line feed; \<open>ReadString\<close> returns the next
  line with the line feed, and the error \<open>EOF\<close> when no complete line is left (Go
  returns the error also when input ends in the middle of a line). \<open>stdout\<close> holds
  what the prompts have printed.
\<close>

record console =
  stdin :: "string list"
  stdout :: "string list"

fun Error :: "error \<Rightarrow> string" where
  "Error (Errorf m) = m"

definition fmt_Print :: "string \<Rightarrow> console \<Rightarrow> console" where
  "fmt_Print s c = c\<lparr>stdout := stdout c @ [s]\<rparr>"

definition ReadString :: "console \<Rightarrow> (error + string) \<times> console" where
  "ReadString c =
     (case stdin c of
        [] \<Rightarrow> (Inl (Errorf ''EOF''), c)
      | l # ls \<Rightarrow> (Inr (l @ [CHR 0x0A]), c\<lparr>stdin := ls\<rparr>))"

text \<open>\<open>promptUser\<close> of the first copy (lines 232 to 240): no second prompt.\<close>

definition promptUser_v1 ::
  "strings_pkg \<Rightarrow> string \<Rightarrow> console \<Rightarrow> (error + string) \<times> console" where
  "promptUser_v1 strings prompt c =
     (case ReadString (fmt_Print prompt c) of
        (Inl err, c1) \<Rightarrow> (Inl (Errorf (''failed to read input: '' @ Error err)), c1)
      | (Inr input, c1) \<Rightarrow> (Inr (TrimSpace strings input), c1))"

text \<open>
  \<open>promptUser\<close> of the second copy (lines 578 to 592): it calls itself again when the
  trimmed line is empty.
\<close>

function promptUser_v2 ::
  "strings_pkg \<Rightarrow> string \<Rightarrow> console \<Rightarrow> (error + string) \<times> console" where
  "promptUser_v2 strings prompt c =
     (case ReadString (fmt_Print prompt c) of
        (Inl err, c1) \<Rightarrow> (Inl err, c1)
      | (Inr input, c1) \<Rightarrow>
          if TrimSpace strings input = [] then promptUser_v2 strings prompt c1
          else (Inr (TrimSpace strings input), c1))"
  by pat_completeness auto
termination
  by (relation "measure (\<lambda>(strings, prompt, c). length (stdin c))")
     (auto simp add: ReadString_def fmt_Print_def split: list.splits)

subsection \<open>strconv.Atoi\<close>

text \<open>
  \<open>strconv.Atoi\<close> of the Go library, for a 64-bit \<open>int\<close>: an optional sign followed
  by one or more decimal digits; a syntax error otherwise, and a range error when the
  value does not fit into 64 bits.
\<close>

datatype NumError = ErrSyntax | ErrRange

definition isDigit :: "char \<Rightarrow> bool" where
  "isDigit c = (c \<in> set ''0123456789'')"

definition digitVal :: "char \<Rightarrow> int" where
  "digitVal c = int (length (takeWhile (\<lambda>d. d \<noteq> c) ''0123456789''))"

fun parseDigits :: "int \<Rightarrow> string \<Rightarrow> int" where
  "parseDigits n [] = n"
| "parseDigits n (ch # s) = parseDigits (n * 10 + digitVal ch) s"

definition Atoi :: "string \<Rightarrow> NumError + int" where
  "Atoi s =
     (case s of
        [] \<Rightarrow> Inl ErrSyntax
      | s0 # rest \<Rightarrow>
          let ds = (if s0 = CHR ''-'' \<or> s0 = CHR ''+'' then rest else s) in
          if ds = [] \<or> \<not> list_all isDigit ds then Inl ErrSyntax
          else
            let un = parseDigits 0 ds in
            if s0 = CHR ''-'' then
              (if 2 ^ 63 < un then Inl ErrRange else Inr (- un))
            else
              (if 2 ^ 63 \<le> un then Inl ErrRange else Inr un))"

subsection \<open>Requests\<close>

text \<open>
  The collection request carries the amount as a string in the first copy and as an
  \<open>int\<close> in the second, so the record is parametric in the type of the amount.
\<close>

record 'a CollectRequest =
  Amount :: 'a
  Currency :: string
  From :: string
  Description :: string
  ExternalReference :: string

record TokenResponse =
  Token :: string

record ErrorResponse =
  Code :: string
  Message :: string

subsection \<open>Input of the first copy (\<open>run\<close>, lines 118 to 155)\<close>

text \<open>
  \<open>now\<close> is the value of \<open>time.Now().Unix()\<close>. The network calls before and after
  this part of \<open>run\<close> decide only whether it is reached and what happens to the request
  it builds.
\<close>

definition HasPrefix :: "string \<Rightarrow> string \<Rightarrow> bool" where
  "HasPrefix s p = (take (length p) s = p)"

definition run_v1_inputs ::
  "strings_pkg \<Rightarrow> int \<Rightarrow> console \<Rightarrow> (error + string CollectRequest) \<times> console" where
  "run_v1_inputs strings now c =
     (case promptUser_v1 strings '' Enter mobile money number (e.g., 237670123456): '' c of
        (Inl err, c1) \<Rightarrow> (Inl err, c1)
      | (Inr phoneNumber, c1) \<Rightarrow>
          if \<not> HasPrefix phoneNumber ''237'' \<or> length phoneNumber \<noteq> 12 then
            (Inl (Errorf
               ''invalid phone number format. Must start with 237 and be 12 digits total''),
             c1)
          else
            (case promptUser_v1 strings '' Enter amount (XAF, no decimals): '' c1 of
               (Inl err, c2) \<Rightarrow> (Inl err, c2)
             | (Inr amountStr, c2) \<Rightarrow>
                 if (case Atoi amountStr of Inl err \<Rightarrow> True | Inr amount \<Rightarrow> amount \<le> 0) then
                   (Inl (Errorf ''invalid amount. Must be a positive integer''), c2)
                 else
                   (case promptUser_v1 strings '' Enter description: '' c2 of
                      (Inl err, c3) \<Rightarrow> (Inl err, c3)
                    | (Inr description, c3) \<Rightarrow>
                        (Inr \<lparr>Amount = amountStr, Currency = ''XAF'', From = phoneNumber,
                              Description = description,
                              ExternalReference = ''TXN-'' @ fmt_d now\<rparr>, c3))))"

subsection \<open>Input of the second copy (lines 490 to 514 and 594 to 627)\<close>

text \<open>\<open>strings.ReplaceAll(phone, " ", "")\<close> deletes every space.\<close>

definition removeSpaces :: "string \<Rightarrow> string" where
  "removeSpaces s = filter (\<lambda>ch. ch \<noteq> CHR '' '') s"

definition promptPhone :: "strings_pkg \<Rightarrow> console \<Rightarrow> (error + string) \<times> console" where
  "promptPhone strings c =
     (case promptUser_v2 strings
             ''Enter mobile money number (e.g., 670123456 or 237670123456): '' c of
        (Inl err, c1) \<Rightarrow> (Inl err, c1)
      | (Inr input, c1) \<Rightarrow>
          let phone = removeSpaces (TrimSpace strings input);
              phone = (if length phone = 9 \<and> phone ! 0 = CHR ''6'' then ''237'' @ phone
                       else phone)
          in if \<not> HasPrefix phone ''237'' \<or> length phone \<noteq> 12
             then (Inl (Errorf ''invalid phone number format''), c1)
             else (Inr phone, c1))"

definition promptAmount :: "strings_pkg \<Rightarrow> console \<Rightarrow> (error + int) \<times> console" where
  "promptAmount strings c =
     (case promptUser_v2 strings ''Enter amount (XAF): '' c of
        (Inl err, c1) \<Rightarrow> (Inl err, c1)
      | (Inr amtStr, c1) \<Rightarrow>
          (case Atoi amtStr of
             Inl err \<Rightarrow> (Inl (Errorf ''amount must be a positive integer''), c1)
           | Inr amount \<Rightarrow>
               if amount \<le> 0 then (Inl (Errorf ''amount must be a positive integer''), c1)
               else (Inr amount, c1)))"

definition run_v2_inputs ::
  "strings_pkg \<Rightarrow> int \<Rightarrow> console \<Rightarrow> (error + int CollectRequest) \<times> console" where
  "run_v2_inputs strings now c =
     (case promptPhone strings c of
        (Inl err, c1) \<Rightarrow> (Inl err, c1)
      | (Inr phone, c1) \<Rightarrow>
          (case promptAmount strings c1 of
             (Inl err, c2) \<Rightarrow> (Inl err, c2)
           | (Inr amount, c2) \<Rightarrow>
               (case promptUser_v2 strings ''Enter description: '' c2 of
                  (Inl err, c3) \<Rightarrow> (Inl err, c3)
                | (Inr description, c3) \<Rightarrow>
                    (Inr \<lparr>Amount = amount, Currency = ''XAF'', From = phone,
                          Description = description,
                          ExternalReference = ''TXN-'' @ fmt_d now\<rparr>, c3))))"

subsection \<open>Concrete input used to instantiate the theorems\<close>

text \<open>A console on which the user types the given lines, and nothing is printed yet.\<close>

definition keyboard :: "string list \<Rightarrow> console" where
  "keyboard ls = \<lparr>stdin = ls, stdout = []\<rparr>"

subsection \<open>Configuration (\<open>run\<close>, lines 78 to 105 and 456 to 477)\<close>

text \<open>
  \<open>dotenv\<close> is the error of \<open>godotenv.Load\<close> when the file \<open>.env\<close> exists and does
  not load, and \<open>None\<close> otherwise; \<open>getenv\<close> is \<open>os.Getenv\<close> after the file has
  been loaded, which gives the empty string for a variable that is not set.
\<close>

record config =
  username :: string
  password :: string
  environment :: string
  apiBaseURL :: string

definition run_v1_setup :: "error option \<Rightarrow> (string \<Rightarrow> string) \<Rightarrow> error + config" where
  "run_v1_setup dotenv getenv =
     (case dotenv of
        Some err \<Rightarrow> Inl (Errorf (''failed to load .env file: '' @ Error err))
      | None \<Rightarrow>
          let username = getenv ''APP_USERNAME'';
              password = getenv ''APP_PASSWORD'';
              environment = getenv ''ENVIRONMENT''
          in if username = [] \<or> password = [] then
               Inl (Errorf ''APP_USERNAME and APP_PASSWORD must be set in .env file'')
             else
               let environment = (if environment = [] then ''DEV'' else environment);
                   apiBaseURL = (if environment = ''PROD'' then ''https://www.campay.net/api''
                                 else ''https://demo.campay.net/api'')
               in Inr \<lparr>username = username, password = password,
                       environment = environment, apiBaseURL = apiBaseURL\<rparr>)"

text \<open>The second copy looks the URL up in a map from \<open>bool\<close>, at \<open>env == "PROD"\<close>.\<close>

definition run_v2_setup :: "error option \<Rightarrow> (string \<Rightarrow> string) \<Rightarrow> error + config" where
  "run_v2_setup dotenv getenv =
     (case dotenv of
        Some err \<Rightarrow> Inl (Errorf (''failed to load .env: '' @ Error err))
      | None \<Rightarrow>
          let username = getenv ''APP_USERNAME'';
              password = getenv ''APP_PASSWORD'';
              env = getenv ''ENVIRONMENT''
          in if username = [] \<or> password = [] then
               Inl (Errorf ''APP_USERNAME and APP_PASSWORD must be set'')
             else
               let env = (if env = [] then ''DEV'' else env);
                   apiBaseURL = (case env = ''PROD'' of
                                   True \<Rightarrow> ''https://www.campay.net/api''
                                 | False \<Rightarrow> ''https://demo.campay.net/api'')
               in Inr \<lparr>username = username, password = password,
                       environment = env, apiBaseURL = apiBaseURL\<rparr>)"

subsection \<open>Answers that are not 200 (lines 185 to 229, 547 to 572 and 726 to 732)\<close>

text \<open>
  \<open>json.Unmarshal\<close> belongs to the Go library, not to the repository, so the decoders
  are parameters: a decoder gives, for a body, the error that \<open>json.Unmarshal\<close> returns
  (\<open>None\<close> for \<open>nil\<close>) and the struct as \<open>json.Unmarshal\<close> leaves it, starting from
  the zero value. The answer of the gateway to one request is either the error of
  \<open>client.Do\<close>, or the status code with the bytes \<open>io.ReadAll\<close> has read and the error
  of \<open>io.ReadAll\<close>. Building the request does not fail (a fixed method, a fixed path
  and a struct of strings).
\<close>

type_synonym 'a decoder = "string \<Rightarrow> error option \<times> 'a"

datatype http_reply = NoReply error | Reply int string "error option"

definition formatAPIError :: "ErrorResponse decoder \<Rightarrow> int \<Rightarrow> string \<Rightarrow> error" where
  "formatAPIError json_Unmarshal status body =
     (case json_Unmarshal body of
        (err, er) \<Rightarrow>
          if err = None \<and> Message er \<noteq> [] then
            Errorf (''API error ('' @ fmt_d status @ ''): '' @ Code er @ '' - '' @ Message er)
          else Errorf (''API error ('' @ fmt_d status @ ''): '' @ body))"

definition getAuthToken_v1 ::
  "ErrorResponse decoder \<Rightarrow> TokenResponse decoder \<Rightarrow> http_reply \<Rightarrow> error + string" where
  "getAuthToken_v1 unmarshalError unmarshalToken reply =
     (case reply of
        NoReply err \<Rightarrow> Inl (Errorf (''failed to send request: '' @ Error err))
      | Reply StatusCode body readErr \<Rightarrow>
          (case readErr of
             Some err \<Rightarrow> Inl (Errorf (''failed to read response: '' @ Error err))
           | None \<Rightarrow>
               if StatusCode \<noteq> 200 then
                 (case unmarshalError body of
                    (ignored, errResp) \<Rightarrow>
                      Inl (Errorf (''authentication failed (status '' @ fmt_d StatusCode
                             @ ''): '' @ Code errResp @ '' - '' @ Message errResp)))
               else
                 (case unmarshalToken body of
                    (Some err, tokenResp) \<Rightarrow>
                      Inl (Errorf (''failed to parse token response: '' @ Error err))
                  | (None, tokenResp) \<Rightarrow> Inr (Token tokenResp))))"

definition getAuthToken_v2 ::
  "ErrorResponse decoder \<Rightarrow> TokenResponse decoder \<Rightarrow> http_reply \<Rightarrow> error + string" where
  "getAuthToken_v2 unmarshalError unmarshalToken reply =
     (case reply of
        NoReply err \<Rightarrow> Inl err
      | Reply StatusCode body readErr \<Rightarrow>
          if StatusCode \<noteq> 200 then Inl (formatAPIError unmarshalError StatusCode body)
          else
            (case unmarshalToken body of
               (Some err, tokenResp) \<Rightarrow> Inl err
             | (None, tokenResp) \<Rightarrow> Inr (Token tokenResp)))"

subsection \<open>Concrete configuration and answers used to instantiate the theorems\<close>

text \<open>\<open>os.Getenv\<close> over a list of variables and their values.\<close>

definition env_of :: "(string \<times> string) list \<Rightarrow> string \<Rightarrow> string" where
  "env_of vars name = (case map_of vars name of None \<Rightarrow> [] | Some v \<Rightarrow> v)"

text \<open>
  The two bodies of the scenario in the specification, and decoders that return on them
  what \<open>encoding/json\<close> returns: the envelope decodes without error, the text
  \<open>internal error\<close> is a syntax error that leaves the struct at its zero value.
\<close>

definition envelope_body :: string where
  \<open>envelope_body = ''{"code":"ER201","message":"Invalid amount"}''\<close>

definition sample_Unmarshal :: "ErrorResponse decoder" where
  "sample_Unmarshal body =
     (if body = envelope_body then (None, \<lparr>Code = ''ER201'', Message = ''Invalid amount''\<rparr>)
      else (Some (Errorf ''invalid character i looking for beginning of value''),
            \<lparr>Code = [], Message = []\<rparr>))"

definition sample_Unmarshal_token :: "TokenResponse decoder" where
  "sample_Unmarshal_token body =
     (Some (Errorf ''invalid character i looking for beginning of value''), \<lparr>Token = []\<rparr>)"

section \<open>Properties\<close>

subsection \<open>One round of each loop\<close>

declare poll_loop_v1.simps [simp del]

declare poll_loop_v2.simps [simp del]

lemma poll_loop_v2_wait:
  assumes "attempt \<le> maxAttempts_v2" "gw (served w) = Inr t" "\<not> terminal_v2 strings (Status t)"
  shows "poll_loop_v2 strings gw b tk r attempt w =
         poll_loop_v2 strings gw b tk r (attempt + 1)
           (w\<lparr>served := Suc (served w), trace := trace w @ round_v2 strings b tk r t attempt\<rparr>)"
  using assms
  by (subst poll_loop_v2.simps)
     (simp add: checkTransactionStatus_def emit_def round_v2_def terminal_v2_def Let_def)

lemma poll_loop_v2_stop:
  assumes "attempt \<le> maxAttempts_v2" "gw (served w) = Inr t" "terminal_v2 strings (Status t)"
  shows "poll_loop_v2 strings gw b tk r attempt w =
         (Inr t, w\<lparr>served := Suc (served w), trace := trace w @ [StatusCheck b tk r]\<rparr>)"
  using assms
  by (subst poll_loop_v2.simps)
     (auto simp add: checkTransactionStatus_def emit_def terminal_v2_def Let_def)

lemma poll_loop_v2_fail:
  assumes "attempt \<le> maxAttempts_v2" "gw (served w) = Inl e"
  shows "poll_loop_v2 strings gw b tk r attempt w =
         (Inl e, w\<lparr>served := Suc (served w), trace := trace w @ [StatusCheck b tk r]\<rparr>)"
  using assms
  by (subst poll_loop_v2.simps)
     (simp add: checkTransactionStatus_def emit_def)

lemma poll_loop_v2_out:
  assumes "maxAttempts_v2 < attempt"
  shows "poll_loop_v2 strings gw b tk r attempt w = (Inl timeout_v2, w)"
  using assms by (subst poll_loop_v2.simps) simp

lemma waiting_v2_Suc:
  "gw (s + n) = Inr t \<Longrightarrow>
   waiting_v2 strings gw b tk r s a (Suc n) = waiting_v2 strings gw b tk r s a n @ round_v2 strings b tk r t (a + int n)"
  by (simp add: waiting_v2_def)

lemma poll_loop_v2_waits:
  assumes "\<forall>i<n. \<exists>t. gw (served w + i) = Inr t \<and> \<not> terminal_v2 strings (Status t)"
    and "a + int n \<le> maxAttempts_v2 + 1"
  shows "poll_loop_v2 strings gw b tk r a w =
         poll_loop_v2 strings gw b tk r (a + int n)
           (w\<lparr>served := served w + n,
              trace := trace w @ waiting_v2 strings gw b tk r (served w) a n\<rparr>)"
  using assms
proof (induction n)
  case 0
  show ?case by (simp add: waiting_v2_def)
next
  case (Suc n)
  from Suc.prems obtain t where t: "gw (served w + n) = Inr t" "\<not> terminal_v2 strings (Status t)"
    by auto
  let ?w = "w\<lparr>served := served w + n, trace := trace w @ waiting_v2 strings gw b tk r (served w) a n\<rparr>"
  have "poll_loop_v2 strings gw b tk r a w = poll_loop_v2 strings gw b tk r (a + int n) ?w"
    using Suc by simp
  also have "\<dots> = poll_loop_v2 strings gw b tk r (a + int n + 1)
      (?w\<lparr>served := Suc (served ?w), trace := trace ?w @ round_v2 strings b tk r t (a + int n)\<rparr>)"
    using Suc.prems t by (intro poll_loop_v2_wait) auto
  finally show ?case
    using t by (simp add: waiting_v2_Suc add.commute add.left_commute)
qed

lemma poll_loop_v1_wait:
  assumes "attempt < maxAttempts_v1" "gw (served w) = Inr t" "\<not> terminal_v1 strings (Status t)"
  shows "poll_loop_v1 strings gw b tk r attempt w =
         poll_loop_v1 strings gw b tk r (attempt + 1)
           (w\<lparr>served := Suc (served w), trace := trace w @ round_v1 strings b tk r t attempt\<rparr>)"
  using assms
  by (subst poll_loop_v1.simps)
     (simp add: checkTransactionStatus_def emit_def round_v1_def terminal_v1_def Let_def)

lemma poll_loop_v1_stop:
  assumes "attempt < maxAttempts_v1" "gw (served w) = Inr t" "terminal_v1 strings (Status t)"
  shows "poll_loop_v1 strings gw b tk r attempt w =
         (Inr t, w\<lparr>served := Suc (served w), trace := trace w @ [StatusCheck b tk r]\<rparr>)"
  using assms
  by (subst poll_loop_v1.simps)
     (auto simp add: checkTransactionStatus_def emit_def terminal_v1_def Let_def)

lemma poll_loop_v1_fail:
  assumes "attempt < maxAttempts_v1" "gw (served w) = Inl e"
  shows "poll_loop_v1 strings gw b tk r attempt w =
         (Inl e, w\<lparr>served := Suc (served w), trace := trace w @ [StatusCheck b tk r]\<rparr>)"
  using assms
  by (subst poll_loop_v1.simps)
     (simp add: checkTransactionStatus_def emit_def)

lemma poll_loop_v1_out:
  assumes "maxAttempts_v1 \<le> attempt"
  shows "poll_loop_v1 strings gw b tk r attempt w = (Inl timeout_v1, w)"
  using assms by (subst poll_loop_v1.simps) simp

lemma waiting_v1_Suc:
  "gw (s + n) = Inr t \<Longrightarrow>
   waiting_v1 strings gw b tk r s a (Suc n) = waiting_v1 strings gw b tk r s a n @ round_v1 strings b tk r t (a + int n)"
  by (simp add: waiting_v1_def)

lemma poll_loop_v1_waits:
  assumes "\<forall>i<n. \<exists>t. gw (served w + i) = Inr t \<and> \<not> terminal_v1 strings (Status t)"
    and "a + int n \<le> maxAttempts_v1"
  shows "poll_loop_v1 strings gw b tk r a w =
         poll_loop_v1 strings gw b tk r (a + int n)
           (w\<lparr>served := served w + n,
              trace := trace w @ waiting_v1 strings gw b tk r (served w) a n\<rparr>)"
  using assms
proof (induction n)
  case 0
  show ?case by (simp add: waiting_v1_def)
next
  case (Suc n)
  from Suc.prems obtain t where t: "gw (served w + n) = Inr t" "\<not> terminal_v1 strings (Status t)"
    by auto
  let ?w = "w\<lparr>served := served w + n, trace := trace w @ waiting_v1 strings gw b tk r (served w) a n\<rparr>"
  have "poll_loop_v1 strings gw b tk r a w = poll_loop_v1 strings gw b tk r (a + int n) ?w"
    using Suc by simp
  also have "\<dots> = poll_loop_v1 strings gw b tk r (a + int n + 1)
      (?w\<lparr>served := Suc (served ?w), trace := trace ?w @ round_v1 strings b tk r t (a + int n)\<rparr>)"
    using Suc.prems t by (intro poll_loop_v1_wait) auto
  finally show ?case
    using t by (simp add: waiting_v1_Suc add.commute add.left_commute)
qed

subsection \<open>The library functions at the statuses of the examples\<close>

lemma ascii_statuses:
  "ToUpper ascii ''PENDING'' = ''PENDING''" "TrimSpace ascii ''PENDING'' = ''PENDING''"
  "ToUpper ascii ''SUCCESSFUL'' = ''SUCCESSFUL''" "TrimSpace ascii ''SUCCESSFUL'' = ''SUCCESSFUL''"
  "ToUpper ascii ''FAILED'' = ''FAILED''" "TrimSpace ascii ''FAILED'' = ''FAILED''"
  "ToUpper ascii ''SUCCESSFUL '' = ''SUCCESSFUL ''" "TrimSpace ascii ''SUCCESSFUL '' = ''SUCCESSFUL''"
  "ToUpper ascii ''processing'' = ''PROCESSING''" "TrimSpace ascii ''processing'' = ''processing''"
  "ToUpper ascii ''PROCESSING'' = ''PROCESSING''"
  by (simp_all add: ascii_def ascii_TrimSpace_def isSpace_def ascii_ToUpper_def upperByte_def)

lemma not_terminal_PENDING:
  "\<not> terminal_v1 ascii ''PENDING''" "\<not> terminal_v2 ascii ''PENDING''"
  by (simp_all add: terminal_v1_def terminal_v2_def normalizeStatus_def ascii_statuses)

lemma terminal_SUCCESSFUL: "terminal_v1 ascii ''SUCCESSFUL''" "terminal_v2 ascii ''SUCCESSFUL''"
  by (simp_all add: terminal_v1_def terminal_v2_def normalizeStatus_def ascii_statuses)

lemma terminal_FAILED: "terminal_v1 ascii ''FAILED''" "terminal_v2 ascii ''FAILED''"
  by (simp_all add: terminal_v1_def terminal_v2_def normalizeStatus_def ascii_statuses)

lemma trailing_space_status:
  "normalizeStatus ascii ''SUCCESSFUL '' = ''SUCCESSFUL''" "\<not> terminal_v1 ascii ''SUCCESSFUL ''"
  by (simp_all add: terminal_v1_def normalizeStatus_def ascii_statuses)

subsection \<open>The first answer that ends the poll\<close>

text \<open>
  Claim C1, as the code has it. Both pollers return the transaction of the first
  response that ends the poll, right after that status check and without a further call,
  on whichever attempt within the budget it arrives. What ends the poll differs: the
  second copy compares the trimmed, upper-cased status with SUCCESSFUL and FAILED
  (\<open>terminal_v2\<close>), the first copy only upper-cases it (\<open>terminal_v1\<close>).
\<close>

theorem poll_returns_first_terminal:
  assumes answer: "gw (served w + k) = Inr t"
  shows "(int k < maxAttempts_v1
            \<and> (\<forall>i<k. \<exists>u. gw (served w + i) = Inr u \<and> \<not> terminal_v1 strings (Status u))
            \<and> terminal_v1 strings (Status t) \<longrightarrow>
           pollTransactionStatus_v1 strings gw b tk r w =
             (Inr t, w\<lparr>served := served w + k + 1,
                        trace := trace w @ waiting_v1 strings gw b tk r (served w) 0 k
                                 @ [StatusCheck b tk r]\<rparr>))
       \<and> (int k < maxAttempts_v2
            \<and> (\<forall>i<k. \<exists>u. gw (served w + i) = Inr u \<and> \<not> terminal_v2 strings (Status u))
            \<and> terminal_v2 strings (Status t) \<longrightarrow>
           pollTransactionStatus_v2 strings gw b tk r w =
             (Inr t, w\<lparr>served := served w + k + 1,
                        trace := trace w @ waiting_v2 strings gw b tk r (served w) 1 k
                                 @ [StatusCheck b tk r]\<rparr>))"
proof (intro conjI impI)
  assume a: "int k < maxAttempts_v1
            \<and> (\<forall>i<k. \<exists>u. gw (served w + i) = Inr u \<and> \<not> terminal_v1 strings (Status u))
            \<and> terminal_v1 strings (Status t)"
  let ?w = "w\<lparr>served := served w + k,
               trace := trace w @ waiting_v1 strings gw b tk r (served w) 0 k\<rparr>"
  have "pollTransactionStatus_v1 strings gw b tk r w = poll_loop_v1 strings gw b tk r (0 + int k) ?w"
    unfolding pollTransactionStatus_v1_def
    using a by (intro poll_loop_v1_waits) auto
  also have "\<dots> = (Inr t, ?w\<lparr>served := Suc (served ?w),
                               trace := trace ?w @ [StatusCheck b tk r]\<rparr>)"
    using a answer by (intro poll_loop_v1_stop) auto
  finally show "pollTransactionStatus_v1 strings gw b tk r w =
             (Inr t, w\<lparr>served := served w + k + 1,
                        trace := trace w @ waiting_v1 strings gw b tk r (served w) 0 k
                                 @ [StatusCheck b tk r]\<rparr>)"
    by simp
next
  assume a: "int k < maxAttempts_v2
            \<and> (\<forall>i<k. \<exists>u. gw (served w + i) = Inr u \<and> \<not> terminal_v2 strings (Status u))
            \<and> terminal_v2 strings (Status t)"
  let ?w = "w\<lparr>served := served w + k,
               trace := trace w @ waiting_v2 strings gw b tk r (served w) 1 k\<rparr>"
  have "pollTransactionStatus_v2 strings gw b tk r w = poll_loop_v2 strings gw b tk r (1 + int k) ?w"
    unfolding pollTransactionStatus_v2_def
    using a by (intro poll_loop_v2_waits) auto
  also have "\<dots> = (Inr t, ?w\<lparr>served := Suc (served ?w),
                               trace := trace ?w @ [StatusCheck b tk r]\<rparr>)"
    using a answer by (intro poll_loop_v2_stop) auto
  finally show "pollTransactionStatus_v2 strings gw b tk r w =
             (Inr t, w\<lparr>served := served w + k + 1,
                        trace := trace w @ waiting_v2 strings gw b tk r (served w) 1 k
                                 @ [StatusCheck b tk r]\<rparr>)"
    by simp
qed

text \<open>
  The scenario of the specification: two PENDING answers, then SUCCESSFUL on the third
  status check.
\<close>

theorem poll_returns_first_terminal_witness:
  "gw_third_successful (served start + 0) = Inr (sample_txn ''PENDING'')
   \<and> gw_third_successful (served start + 1) = Inr (sample_txn ''PENDING'')
   \<and> gw_third_successful (served start + 2) = Inr (sample_txn ''SUCCESSFUL'')
   \<and> \<not> terminal_v1 ascii (Status (sample_txn ''PENDING''))
   \<and> \<not> terminal_v2 ascii (Status (sample_txn ''PENDING''))
   \<and> terminal_v1 ascii (Status (sample_txn ''SUCCESSFUL''))
   \<and> terminal_v2 ascii (Status (sample_txn ''SUCCESSFUL''))
   \<and> pollTransactionStatus_v1 ascii gw_third_successful ''https://demo.campay.net/api'' ''tok''
         ''r1'' start =
       (Inr (sample_txn ''SUCCESSFUL''),
        \<lparr>served = 3,
         trace =
           [StatusCheck ''https://demo.campay.net/api'' ''tok'' ''r1'',
            Print ('' Status: PENDING (attempt 1/60, checking again in 5s...)'' @ [CHR 0x0A]),
            Sleep 5000000000,
            StatusCheck ''https://demo.campay.net/api'' ''tok'' ''r1'',
            Print ('' Status: PENDING (attempt 2/60, checking again in 5s...)'' @ [CHR 0x0A]),
            Sleep 5000000000,
            StatusCheck ''https://demo.campay.net/api'' ''tok'' ''r1'']\<rparr>)
   \<and> pollTransactionStatus_v2 ascii gw_third_successful ''https://demo.campay.net/api'' ''tok''
         ''r1'' start =
       (Inr (sample_txn ''SUCCESSFUL''),
        \<lparr>served = 3,
         trace =
           [StatusCheck ''https://demo.campay.net/api'' ''tok'' ''r1'',
            Print (''Status: PENDING (attempt 1/40)'' @ [CHR 0x0A]),
            Sleep 5000000000,
            StatusCheck ''https://demo.campay.net/api'' ''tok'' ''r1'',
            Print (''Status: PENDING (attempt 2/40)'' @ [CHR 0x0A]),
            Sleep 5000000000,
            StatusCheck ''https://demo.campay.net/api'' ''tok'' ''r1'']\<rparr>)"
proof -
  have p: "gw_third_successful (served start + 0) = Inr (sample_txn ''PENDING'')
      \<and> gw_third_successful (served start + 1) = Inr (sample_txn ''PENDING'')
      \<and> \<not> terminal_v1 ascii (Status (sample_txn ''PENDING''))
      \<and> \<not> terminal_v2 ascii (Status (sample_txn ''PENDING''))
      \<and> terminal_v1 ascii (Status (sample_txn ''SUCCESSFUL''))
      \<and> terminal_v2 ascii (Status (sample_txn ''SUCCESSFUL''))"
    by (simp add: gw_third_successful_def start_def sample_txn_def not_terminal_PENDING terminal_SUCCESSFUL)
  have a: "gw_third_successful (served start + 2) = Inr (sample_txn ''SUCCESSFUL'')"
    by (simp add: gw_third_successful_def start_def)
  have q1: "\<forall>i<2. \<exists>u. gw_third_successful (served start + i) = Inr u
              \<and> \<not> terminal_v1 ascii (Status u)"
    by (simp add: gw_third_successful_def start_def sample_txn_def not_terminal_PENDING)
  have q2: "\<forall>i<2. \<exists>u. gw_third_successful (served start + i) = Inr u
              \<and> \<not> terminal_v2 ascii (Status u)"
    by (simp add: gw_third_successful_def start_def sample_txn_def not_terminal_PENDING)
  have t1: "waiting_v1 ascii gw_third_successful ''https://demo.campay.net/api'' ''tok'' ''r1'' 0 0 2 =
     [StatusCheck ''https://demo.campay.net/api'' ''tok'' ''r1'',
      Print ('' Status: PENDING (attempt 1/60, checking again in 5s...)'' @ [CHR 0x0A]),
      Sleep 5000000000,
      StatusCheck ''https://demo.campay.net/api'' ''tok'' ''r1'',
      Print ('' Status: PENDING (attempt 2/60, checking again in 5s...)'' @ [CHR 0x0A]),
      Sleep 5000000000]"
    by code_simp
  have t2: "waiting_v2 ascii gw_third_successful ''https://demo.campay.net/api'' ''tok'' ''r1'' 0 1 2 =
     [StatusCheck ''https://demo.campay.net/api'' ''tok'' ''r1'',
      Print (''Status: PENDING (attempt 1/40)'' @ [CHR 0x0A]),
      Sleep 5000000000,
      StatusCheck ''https://demo.campay.net/api'' ''tok'' ''r1'',
      Print (''Status: PENDING (attempt 2/40)'' @ [CHR 0x0A]),
      Sleep 5000000000]"
    by code_simp
  show ?thesis
    using p a q1 q2
      poll_returns_first_terminal [where strings = ascii and gw = gw_third_successful and w = start and k = 2
          and t = "sample_txn ''SUCCESSFUL''" and b = "''https://demo.campay.net/api''"
          and tk = "''tok''" and r = "''r1''"]
    by (simp add: t1 t2 maxAttempts_v1_def maxAttempts_v2_def start_def)
qed

text \<open>
  Claim C1 as stated fails on the first copy: a status with a trailing space normalizes to
  SUCCESSFUL, yet the poller goes on and times out after 60 status checks.
\<close>

theorem poll_v1_ignores_padded_status:
  "gw_trailing_space 0 = Inr (sample_txn ''SUCCESSFUL '')
   \<and> normalizeStatus ascii (Status (sample_txn ''SUCCESSFUL '')) = ''SUCCESSFUL''
   \<and> fst (pollTransactionStatus_v1 ascii gw_trailing_space ''https://demo.campay.net/api'' ''tok''
            ''r1'' start) = Inl timeout_v1
   \<and> served (snd (pollTransactionStatus_v1 ascii gw_trailing_space ''https://demo.campay.net/api''
            ''tok'' ''r1'' start)) = 60"
proof -
  have q: "\<forall>i<60. \<exists>t. gw_trailing_space (served start + i) = Inr t
             \<and> \<not> terminal_v1 ascii (Status t)"
    by (simp add: gw_trailing_space_def sample_txn_def trailing_space_status
        not_terminal_PENDING)
  have "pollTransactionStatus_v1 ascii gw_trailing_space b tk r start =
        poll_loop_v1 ascii gw_trailing_space b tk r (0 + int 60)
          (start\<lparr>served := served start + 60,
              trace := trace start @ waiting_v1 ascii gw_trailing_space b tk r (served start) 0 60\<rparr>)"
    for b tk r
    unfolding pollTransactionStatus_v1_def
    using q by (intro poll_loop_v1_waits) (auto simp add: maxAttempts_v1_def)
  then show ?thesis
    by (simp add: poll_loop_v1_out maxAttempts_v1_def start_def gw_trailing_space_def
        sample_txn_def trailing_space_status)
qed

subsection \<open>A status check that fails\<close>

text \<open>
  Claim C3. When a status check fails on some attempt within the budget (the checks
  before it having answered with transactions that do not end the poll of that copy),
  both pollers return that very error at once: the failing call is the last event of the
  trace, so no further status check is made, nothing is printed and no sleep follows.
\<close>

theorem poll_aborts_on_failed_check:
  assumes fails: "gw (served w + k) = Inl e"
  shows "(int k < maxAttempts_v1
            \<and> (\<forall>i<k. \<exists>u. gw (served w + i) = Inr u \<and> \<not> terminal_v1 strings (Status u)) \<longrightarrow>
           pollTransactionStatus_v1 strings gw b tk r w =
             (Inl e, w\<lparr>served := served w + k + 1,
                        trace := trace w @ waiting_v1 strings gw b tk r (served w) 0 k
                                 @ [StatusCheck b tk r]\<rparr>))
       \<and> (int k < maxAttempts_v2
            \<and> (\<forall>i<k. \<exists>u. gw (served w + i) = Inr u \<and> \<not> terminal_v2 strings (Status u)) \<longrightarrow>
           pollTransactionStatus_v2 strings gw b tk r w =
             (Inl e, w\<lparr>served := served w + k + 1,
                        trace := trace w @ waiting_v2 strings gw b tk r (served w) 1 k
                                 @ [StatusCheck b tk r]\<rparr>))"
proof (intro conjI impI)
  assume a: "int k < maxAttempts_v1
            \<and> (\<forall>i<k. \<exists>u. gw (served w + i) = Inr u \<and> \<not> terminal_v1 strings (Status u))"
  let ?w = "w\<lparr>served := served w + k,
               trace := trace w @ waiting_v1 strings gw b tk r (served w) 0 k\<rparr>"
  have "pollTransactionStatus_v1 strings gw b tk r w = poll_loop_v1 strings gw b tk r (0 + int k) ?w"
    unfolding pollTransactionStatus_v1_def
    using a by (intro poll_loop_v1_waits) auto
  also have "\<dots> = (Inl e, ?w\<lparr>served := Suc (served ?w),
                               trace := trace ?w @ [StatusCheck b tk r]\<rparr>)"
    using a fails by (intro poll_loop_v1_fail) auto
  finally show "pollTransactionStatus_v1 strings gw b tk r w =
             (Inl e, w\<lparr>served := served w + k + 1,
                        trace := trace w @ waiting_v1 strings gw b tk r (served w) 0 k
                                 @ [StatusCheck b tk r]\<rparr>)"
    by simp
next
  assume a: "int k < maxAttempts_v2
            \<and> (\<forall>i<k. \<exists>u. gw (served w + i) = Inr u \<and> \<not> terminal_v2 strings (Status u))"
  let ?w = "w\<lparr>served := served w + k,
               trace := trace w @ waiting_v2 strings gw b tk r (served w) 1 k\<rparr>"
  have "pollTransactionStatus_v2 strings gw b tk r w = poll_loop_v2 strings gw b tk r (1 + int k) ?w"
    unfolding pollTransactionStatus_v2_def
    using a by (intro poll_loop_v2_waits) auto
  also have "\<dots> = (Inl e, ?w\<lparr>served := Suc (served ?w),
                               trace := trace ?w @ [StatusCheck b tk r]\<rparr>)"
    using a fails by (intro poll_loop_v2_fail) auto
  finally show "pollTransactionStatus_v2 strings gw b tk r w =
             (Inl e, w\<lparr>served := served w + k + 1,
                        trace := trace w @ waiting_v2 strings gw b tk r (served w) 1 k
                                 @ [StatusCheck b tk r]\<rparr>)"
    by simp
qed

text \<open>The theorem at a gateway that answers PENDING twice and then refuses the connection.\<close>

theorem poll_aborts_on_failed_check_witness:
  "gw_broken (served start + 0) = Inr (sample_txn ''PENDING'')
   \<and> gw_broken (served start + 1) = Inr (sample_txn ''PENDING'')
   \<and> gw_broken (served start + 2) = Inl (Errorf ''connection refused'')
   \<and> \<not> terminal_v1 ascii (Status (sample_txn ''PENDING''))
   \<and> \<not> terminal_v2 ascii (Status (sample_txn ''PENDING''))
   \<and> pollTransactionStatus_v1 ascii gw_broken ''https://demo.campay.net/api'' ''tok''
         ''r1'' start =
       (Inl (Errorf ''connection refused''),
        \<lparr>served = 3,
         trace =
           [StatusCheck ''https://demo.campay.net/api'' ''tok'' ''r1'',
            Print ('' Status: PENDING (attempt 1/60, checking again in 5s...)'' @ [CHR 0x0A]),
            Sleep 5000000000,
            StatusCheck ''https://demo.campay.net/api'' ''tok'' ''r1'',
            Print ('' Status: PENDING (attempt 2/60, checking again in 5s...)'' @ [CHR 0x0A]),
            Sleep 5000000000,
            StatusCheck ''https://demo.campay.net/api'' ''tok'' ''r1'']\<rparr>)
   \<and> pollTransactionStatus_v2 ascii gw_broken ''https://demo.campay.net/api'' ''tok''
         ''r1'' start =
       (Inl (Errorf ''connection refused''),
        \<lparr>served = 3,
         trace =
           [StatusCheck ''https://demo.campay.net/api'' ''tok'' ''r1'',
            Print (''Status: PENDING (attempt 1/40)'' @ [CHR 0x0A]),
            Sleep 5000000000,
            StatusCheck ''https://demo.campay.net/api'' ''tok'' ''r1'',
            Print (''Status: PENDING (attempt 2/40)'' @ [CHR 0x0A]),
            Sleep 5000000000,
            StatusCheck ''https://demo.campay.net/api'' ''tok'' ''r1'']\<rparr>)"
proof -
  have p: "gw_broken (served start + 0) = Inr (sample_txn ''PENDING'')
      \<and> gw_broken (served start + 1) = Inr (sample_txn ''PENDING'')
      \<and> \<not> terminal_v1 ascii (Status (sample_txn ''PENDING''))
      \<and> \<not> terminal_v2 ascii (Status (sample_txn ''PENDING''))"
    by (simp add: gw_broken_def start_def sample_txn_def not_terminal_PENDING terminal_SUCCESSFUL)
  have a: "gw_broken (served start + 2) = Inl (Errorf ''connection refused'')"
    by (simp add: gw_broken_def start_def)
  have q1: "\<forall>i<2. \<exists>u. gw_broken (served start + i) = Inr u
              \<and> \<not> terminal_v1 ascii (Status u)"
    by (simp add: gw_broken_def start_def sample_txn_def not_terminal_PENDING)
  have q2: "\<forall>i<2. \<exists>u. gw_broken (served start + i) = Inr u
              \<and> \<not> terminal_v2 ascii (Status u)"
    by (simp add: gw_broken_def start_def sample_txn_def not_terminal_PENDING)
  have t1: "waiting_v1 ascii gw_broken ''https://demo.campay.net/api'' ''tok'' ''r1'' 0 0 2 =
     [StatusCheck ''https://demo.campay.net/api'' ''tok'' ''r1'',
      Print ('' Status: PENDING (attempt 1/60, checking again in 5s...)'' @ [CHR 0x0A]),
      Sleep 5000000000,
      StatusCheck ''https://demo.campay.net/api'' ''tok'' ''r1'',
      Print ('' Status: PENDING (attempt 2/60, checking again in 5s...)'' @ [CHR 0x0A]),
      Sleep 5000000000]"
    by code_simp
  have t2: "waiting_v2 ascii gw_broken ''https://demo.campay.net/api'' ''tok'' ''r1'' 0 1 2 =
     [StatusCheck ''https://demo.campay.net/api'' ''tok'' ''r1'',
      Print (''Status: PENDING (attempt 1/40)'' @ [CHR 0x0A]),
      Sleep 5000000000,
      StatusCheck ''https://demo.campay.net/api'' ''tok'' ''r1'',
      Print (''Status: PENDING (attempt 2/40)'' @ [CHR 0x0A]),
      Sleep 5000000000]"
    by code_simp
  show ?thesis
    using p a q1 q2
      poll_aborts_on_failed_check [where strings = ascii and gw = gw_broken and w = start and k = 2
          and e = "Errorf ''connection refused''" and b = "''https://demo.campay.net/api''"
          and tk = "''tok''" and r = "''r1''"]
    by (simp add: t1 t2 maxAttempts_v1_def maxAttempts_v2_def start_def)
qed

subsection \<open>The budget of attempts\<close>

lemma waiting_v1_pending:
  assumes "\<forall>i. \<exists>t. gw (s + i) = Inr t \<and> Status t = ''PENDING''"
    and up: "ToUpper strings ''PENDING'' = ''PENDING''"
  shows "waiting_v1 strings gw b tk r s a n =
         concat (map (\<lambda>i. [StatusCheck b tk r, Print (pending_line_v1 (a + int i)),
                            Sleep (5 * Second)]) [0..<n])"
proof -
  have "(case gw (s + i) of Inl err \<Rightarrow> [] | Inr t \<Rightarrow> round_v1 strings b tk r t (a + int i)) =
        [StatusCheck b tk r, Print (pending_line_v1 (a + int i)), Sleep (5 * Second)]" for i
  proof -
    from assms(1) obtain t where "gw (s + i) = Inr t" "Status t = ''PENDING''" by blast
    then show ?thesis by (simp add: round_v1_def up interval_def)
  qed
  then show ?thesis by (simp add: waiting_v1_def)
qed

lemma waiting_v2_pending:
  assumes "\<forall>i. \<exists>t. gw (s + i) = Inr t \<and> Status t = ''PENDING''"
    and up: "normalizeStatus strings ''PENDING'' = ''PENDING''"
  shows "waiting_v2 strings gw b tk r s a n =
         concat (map (\<lambda>i. [StatusCheck b tk r, Print (status_line_v2 ''PENDING'' (a + int i)),
                            Sleep (5 * Second)]) [0..<n])"
proof -
  have "(case gw (s + i) of Inl err \<Rightarrow> [] | Inr t \<Rightarrow> round_v2 strings b tk r t (a + int i)) =
        [StatusCheck b tk r, Print (status_line_v2 ''PENDING'' (a + int i)), Sleep (5 * Second)]"
    for i
  proof -
    from assms(1) obtain t where "gw (s + i) = Inr t" "Status t = ''PENDING''" by blast
    then show ?thesis by (simp add: round_v2_def up interval_def)
  qed
  then show ?thesis by (simp add: waiting_v2_def)
qed

text \<open>
  Claim C2. When every status check answers PENDING, the first copy makes exactly 60
  status checks and the second exactly 40. Each check is followed by one printed line and
  one sleep of five seconds, so consecutive checks are five seconds of sleep apart, and
  the poller then returns its timeout error and no transaction. The library leaves the
  word PENDING as it is, both when upper-casing and when trimming; the hypotheses
  \<open>upper\<close> and \<open>trim\<close> record this.
\<close>

theorem poll_times_out_after_budget:
  assumes pending: "\<forall>i. \<exists>t. gw (served w + i) = Inr t \<and> Status t = ''PENDING''"
    and upper: "ToUpper strings ''PENDING'' = ''PENDING''"
    and trim: "TrimSpace strings ''PENDING'' = ''PENDING''"
  shows "pollTransactionStatus_v1 strings gw b tk r w =
           (Inl timeout_v1,
            w\<lparr>served := served w + 60,
               trace := trace w @
                 concat (map (\<lambda>i. [StatusCheck b tk r, Print (pending_line_v1 (int i)),
                                    Sleep (5 * Second)]) [0..<60])\<rparr>)
       \<and> pollTransactionStatus_v2 strings gw b tk r w =
           (Inl timeout_v2,
            w\<lparr>served := served w + 40,
               trace := trace w @
                 concat (map (\<lambda>i. [StatusCheck b tk r,
                                    Print (status_line_v2 ''PENDING'' (int i + 1)),
                                    Sleep (5 * Second)]) [0..<40])\<rparr>)"
proof
  have n1: "\<not> terminal_v1 strings ''PENDING''"
    by (simp add: terminal_v1_def upper)
  have q: "\<forall>i<60. \<exists>t. gw (served w + i) = Inr t \<and> \<not> terminal_v1 strings (Status t)"
    using pending n1 by metis
  have "pollTransactionStatus_v1 strings gw b tk r w =
        poll_loop_v1 strings gw b tk r (0 + int 60)
          (w\<lparr>served := served w + 60,
              trace := trace w @ waiting_v1 strings gw b tk r (served w) 0 60\<rparr>)"
    unfolding pollTransactionStatus_v1_def
    using q by (intro poll_loop_v1_waits) (auto simp add: maxAttempts_v1_def)
  then show "pollTransactionStatus_v1 strings gw b tk r w =
           (Inl timeout_v1,
            w\<lparr>served := served w + 60,
               trace := trace w @
                 concat (map (\<lambda>i. [StatusCheck b tk r, Print (pending_line_v1 (int i)),
                                    Sleep (5 * Second)]) [0..<60])\<rparr>)"
    by (simp add: poll_loop_v1_out maxAttempts_v1_def waiting_v1_pending [OF pending upper])
next
  have nz: "normalizeStatus strings ''PENDING'' = ''PENDING''"
    by (simp add: normalizeStatus_def upper trim)
  have n2: "\<not> terminal_v2 strings ''PENDING''"
    by (simp add: terminal_v2_def nz)
  have q: "\<forall>i<40. \<exists>t. gw (served w + i) = Inr t \<and> \<not> terminal_v2 strings (Status t)"
    using pending n2 by metis
  have "pollTransactionStatus_v2 strings gw b tk r w =
        poll_loop_v2 strings gw b tk r (1 + int 40)
          (w\<lparr>served := served w + 40,
              trace := trace w @ waiting_v2 strings gw b tk r (served w) 1 40\<rparr>)"
    unfolding pollTransactionStatus_v2_def
    using q by (intro poll_loop_v2_waits) (auto simp add: maxAttempts_v2_def)
  then show "pollTransactionStatus_v2 strings gw b tk r w =
           (Inl timeout_v2,
            w\<lparr>served := served w + 40,
               trace := trace w @
                 concat (map (\<lambda>i. [StatusCheck b tk r,
                                    Print (status_line_v2 ''PENDING'' (int i + 1)),
                                    Sleep (5 * Second)]) [0..<40])\<rparr>)"
    by (simp add: poll_loop_v2_out maxAttempts_v2_def waiting_v2_pending [OF pending nz]
        add.commute)
qed

text \<open>The theorem at the gateway that always answers PENDING.\<close>

theorem poll_times_out_after_budget_witness:
  "(\<forall>i. \<exists>t. gw_pending (served start + i) = Inr t \<and> Status t = ''PENDING'')
   \<and> ToUpper ascii ''PENDING'' = ''PENDING'' \<and> TrimSpace ascii ''PENDING'' = ''PENDING''
   \<and> pollTransactionStatus_v1 ascii gw_pending ''https://demo.campay.net/api'' ''tok'' ''r1'' start =
       (Inl (Errorf ''transaction status check timed out after 60 attempts''),
        \<lparr>served = 60,
         trace = concat (map (\<lambda>i. [StatusCheck ''https://demo.campay.net/api'' ''tok'' ''r1'',
                                    Print (pending_line_v1 (int i)),
                                    Sleep 5000000000]) [0..<60])\<rparr>)
   \<and> pollTransactionStatus_v2 ascii gw_pending ''https://demo.campay.net/api'' ''tok'' ''r1'' start =
       (Inl (Errorf ''transaction polling timed out''),
        \<lparr>served = 40,
         trace = concat (map (\<lambda>i. [StatusCheck ''https://demo.campay.net/api'' ''tok'' ''r1'',
                                    Print (status_line_v2 ''PENDING'' (int i + 1)),
                                    Sleep 5000000000]) [0..<40])\<rparr>)
   \<and> pending_line_v1 59 =
       '' Status: PENDING (attempt 60/60, checking again in 5s...)'' @ [CHR 0x0A]
   \<and> status_line_v2 ''PENDING'' 40 = ''Status: PENDING (attempt 40/40)'' @ [CHR 0x0A]"
proof -
  have p: "\<forall>i. \<exists>t. gw_pending (served start + i) = Inr t \<and> Status t = ''PENDING''"
    by (simp add: gw_pending_def sample_txn_def)
  have l: "pending_line_v1 59 =
       '' Status: PENDING (attempt 60/60, checking again in 5s...)'' @ [CHR 0x0A]"
    "status_line_v2 ''PENDING'' 40 = ''Status: PENDING (attempt 40/40)'' @ [CHR 0x0A]"
    by (simp_all add: pending_line_v1_def status_line_v2_def maxAttempts_v1_def
        maxAttempts_v2_def fmt_d_def fmt_v_seconds_def interval_def Second_def)
  have e: "timeout_v1 = Errorf ''transaction status check timed out after 60 attempts''"
    "timeout_v2 = Errorf ''transaction polling timed out''"
    by (simp_all add: timeout_v1_def timeout_v2_def maxAttempts_v1_def fmt_d_def)
  show ?thesis
    using p l ascii_statuses(1,2)
      poll_times_out_after_budget [OF p ascii_statuses(1,2), of "''https://demo.campay.net/api''" "''tok''"
        "''r1''"]
    by (simp add: e start_def Second_def)
qed

subsection \<open>Results and errors of the poll\<close>

lemma poll_v1_exhausted:
  assumes "\<forall>i<60. \<exists>u. gw (served w + i) = Inr u \<and> \<not> terminal_v1 strings (Status u)"
  shows "fst (pollTransactionStatus_v1 strings gw b tk r w) = Inl timeout_v1"
proof -
  have "pollTransactionStatus_v1 strings gw b tk r w =
        poll_loop_v1 strings gw b tk r (0 + int 60)
          (w\<lparr>served := served w + 60,
              trace := trace w @ waiting_v1 strings gw b tk r (served w) 0 60\<rparr>)"
    unfolding pollTransactionStatus_v1_def
    using assms by (intro poll_loop_v1_waits) (auto simp add: maxAttempts_v1_def)
  then show ?thesis by (simp add: poll_loop_v1_out maxAttempts_v1_def)
qed

lemma poll_v2_exhausted:
  assumes "\<forall>i<40. \<exists>u. gw (served w + i) = Inr u \<and> \<not> terminal_v2 strings (Status u)"
  shows "fst (pollTransactionStatus_v2 strings gw b tk r w) = Inl timeout_v2"
proof -
  have "pollTransactionStatus_v2 strings gw b tk r w =
        poll_loop_v2 strings gw b tk r (1 + int 40)
          (w\<lparr>served := served w + 40,
              trace := trace w @ waiting_v2 strings gw b tk r (served w) 1 40\<rparr>)"
    unfolding pollTransactionStatus_v2_def
    using assms by (intro poll_loop_v2_waits) (auto simp add: maxAttempts_v2_def)
  then show ?thesis by (simp add: poll_loop_v2_out maxAttempts_v2_def)
qed

lemma poll_v1_stops:
  assumes "\<forall>i<k. \<exists>u. gw (served w + i) = Inr u \<and> \<not> terminal_v1 strings (Status u)"
    and "gw (served w + k) = Inr t" "terminal_v1 strings (Status t)" "int k < maxAttempts_v1"
  shows "fst (pollTransactionStatus_v1 strings gw b tk r w) = Inr t"
proof -
  let ?w = "w\<lparr>served := served w + k,
               trace := trace w @ waiting_v1 strings gw b tk r (served w) 0 k\<rparr>"
  have "pollTransactionStatus_v1 strings gw b tk r w = poll_loop_v1 strings gw b tk r (0 + int k) ?w"
    unfolding pollTransactionStatus_v1_def
    using assms by (intro poll_loop_v1_waits) auto
  also have "\<dots> = (Inr t, ?w\<lparr>served := Suc (served ?w),
                               trace := trace ?w @ [StatusCheck b tk r]\<rparr>)"
    using assms by (intro poll_loop_v1_stop) auto
  finally show ?thesis by simp
qed

lemma poll_v2_stops:
  assumes "\<forall>i<k. \<exists>u. gw (served w + i) = Inr u \<and> \<not> terminal_v2 strings (Status u)"
    and "gw (served w + k) = Inr t" "terminal_v2 strings (Status t)" "int k < maxAttempts_v2"
  shows "fst (pollTransactionStatus_v2 strings gw b tk r w) = Inr t"
proof -
  let ?w = "w\<lparr>served := served w + k,
               trace := trace w @ waiting_v2 strings gw b tk r (served w) 1 k\<rparr>"
  have "pollTransactionStatus_v2 strings gw b tk r w = poll_loop_v2 strings gw b tk r (1 + int k) ?w"
    unfolding pollTransactionStatus_v2_def
    using assms by (intro poll_loop_v2_waits) auto
  also have "\<dots> = (Inr t, ?w\<lparr>served := Suc (served ?w),
                               trace := trace ?w @ [StatusCheck b tk r]\<rparr>)"
    using assms by (intro poll_loop_v2_stop) auto
  finally show ?thesis by simp
qed

lemma poll_loop_v1_record:
  "poll_loop_v1 strings gw b tk r a w = (Inr t, w') \<Longrightarrow> terminal_v1 strings (Status t)"
proof (induction "nat (maxAttempts_v1 + 1 - a)" arbitrary: a w)
  case 0
  then have "maxAttempts_v1 \<le> a" by simp
  with "0.prems" show ?case by (simp add: poll_loop_v1_out)
next
  case (Suc n)
  show ?case
  proof (cases "a < maxAttempts_v1")
    case False
    then have "maxAttempts_v1 \<le> a" by simp
    with Suc.prems show ?thesis by (simp add: poll_loop_v1_out)
  next
    case True
    show ?thesis
    proof (cases "gw (served w)")
      case (Inl e)
      with True Suc.prems show ?thesis by (simp add: poll_loop_v1_fail)
    next
      case (Inr u)
      show ?thesis
      proof (cases "terminal_v1 strings (Status u)")
        case True
        with \<open>a < maxAttempts_v1\<close> Inr Suc.prems show ?thesis
          by (simp add: poll_loop_v1_stop)
      next
        case False
        have "poll_loop_v1 strings gw b tk r a w =
              poll_loop_v1 strings gw b tk r (a + 1)
                (w\<lparr>served := Suc (served w), trace := trace w @ round_v1 strings b tk r u a\<rparr>)"
          using \<open>a < maxAttempts_v1\<close> Inr False by (rule poll_loop_v1_wait)
        moreover have "n = nat (maxAttempts_v1 + 1 - (a + 1))"
          using Suc.hyps(2) by simp
        ultimately show ?thesis using Suc.hyps(1) Suc.prems by metis
      qed
    qed
  qed
qed

lemma poll_loop_v2_record:
  "poll_loop_v2 strings gw b tk r a w = (Inr t, w') \<Longrightarrow> terminal_v2 strings (Status t)"
proof (induction "nat (maxAttempts_v2 + 1 - a)" arbitrary: a w)
  case 0
  then have "maxAttempts_v2 < a" by simp
  with "0.prems" show ?case by (simp add: poll_loop_v2_out)
next
  case (Suc n)
  show ?case
  proof (cases "a \<le> maxAttempts_v2")
    case False
    then have "maxAttempts_v2 < a" by simp
    with Suc.prems show ?thesis by (simp add: poll_loop_v2_out)
  next
    case True
    show ?thesis
    proof (cases "gw (served w)")
      case (Inl e)
      with True Suc.prems show ?thesis by (simp add: poll_loop_v2_fail)
    next
      case (Inr u)
      show ?thesis
      proof (cases "terminal_v2 strings (Status u)")
        case True
        with \<open>a \<le> maxAttempts_v2\<close> Inr Suc.prems show ?thesis
          by (simp add: poll_loop_v2_stop)
      next
        case False
        have "poll_loop_v2 strings gw b tk r a w =
              poll_loop_v2 strings gw b tk r (a + 1)
                (w\<lparr>served := Suc (served w), trace := trace w @ round_v2 strings b tk r u a\<rparr>)"
          using \<open>a \<le> maxAttempts_v2\<close> Inr False by (rule poll_loop_v2_wait)
        moreover have "n = nat (maxAttempts_v2 + 1 - (a + 1))"
          using Suc.hyps(2) by simp
        ultimately show ?thesis using Suc.hyps(1) Suc.prems by metis
      qed
    qed
  qed
qed

text \<open>
  Claim C8. After answers that do not end the poll, a transaction whose status is
  FAILED (as the copy reads it: upper-cased in the first copy, trimmed and upper-cased in
  the second) is returned as the result of the poll, with no error, just as one whose
  status is SUCCESSFUL. When the budget runs out the result is the timeout error and no
  transaction. The two cannot be confused: a transaction is only ever returned with a
  status that ends the poll.
\<close>

theorem failed_status_is_a_result_not_an_error:
  "(gw (served w + k) = Inr t \<and> int k < maxAttempts_v1
      \<and> (\<forall>i<k. \<exists>u. gw (served w + i) = Inr u \<and> \<not> terminal_v1 strings (Status u))
      \<and> (ToUpper strings (Status t) = ''FAILED''
           \<or> ToUpper strings (Status t) = ''SUCCESSFUL'') \<longrightarrow>
      fst (pollTransactionStatus_v1 strings gw b tk r w) = Inr t)
   \<and> (gw (served w + k) = Inr t \<and> int k < maxAttempts_v2
      \<and> (\<forall>i<k. \<exists>u. gw (served w + i) = Inr u \<and> \<not> terminal_v2 strings (Status u))
      \<and> (normalizeStatus strings (Status t) = ''FAILED''
           \<or> normalizeStatus strings (Status t) = ''SUCCESSFUL'') \<longrightarrow>
      fst (pollTransactionStatus_v2 strings gw b tk r w) = Inr t)
   \<and> ((\<forall>i<60. \<exists>u. gw (served w + i) = Inr u \<and> \<not> terminal_v1 strings (Status u)) \<longrightarrow>
      fst (pollTransactionStatus_v1 strings gw b tk r w) = Inl timeout_v1)
   \<and> ((\<forall>i<40. \<exists>u. gw (served w + i) = Inr u \<and> \<not> terminal_v2 strings (Status u)) \<longrightarrow>
      fst (pollTransactionStatus_v2 strings gw b tk r w) = Inl timeout_v2)
   \<and> (fst (pollTransactionStatus_v1 strings gw b tk r w) = Inr t \<longrightarrow>
        terminal_v1 strings (Status t))
   \<and> (fst (pollTransactionStatus_v2 strings gw b tk r w) = Inr t \<longrightarrow>
        terminal_v2 strings (Status t))"
proof (intro conjI impI)
  assume a: "gw (served w + k) = Inr t \<and> int k < maxAttempts_v1
      \<and> (\<forall>i<k. \<exists>u. gw (served w + i) = Inr u \<and> \<not> terminal_v1 strings (Status u))
      \<and> (ToUpper strings (Status t) = ''FAILED''
           \<or> ToUpper strings (Status t) = ''SUCCESSFUL'')"
  then have "terminal_v1 strings (Status t)" by (auto simp add: terminal_v1_def)
  then show "fst (pollTransactionStatus_v1 strings gw b tk r w) = Inr t"
    using a by (intro poll_v1_stops [where k = k]) auto
next
  assume a: "gw (served w + k) = Inr t \<and> int k < maxAttempts_v2
      \<and> (\<forall>i<k. \<exists>u. gw (served w + i) = Inr u \<and> \<not> terminal_v2 strings (Status u))
      \<and> (normalizeStatus strings (Status t) = ''FAILED''
           \<or> normalizeStatus strings (Status t) = ''SUCCESSFUL'')"
  then have "terminal_v2 strings (Status t)" by (auto simp add: terminal_v2_def)
  then show "fst (pollTransactionStatus_v2 strings gw b tk r w) = Inr t"
    using a by (intro poll_v2_stops [where k = k]) auto
next
  assume "\<forall>i<60. \<exists>u. gw (served w + i) = Inr u \<and> \<not> terminal_v1 strings (Status u)"
  then show "fst (pollTransactionStatus_v1 strings gw b tk r w) = Inl timeout_v1"
    by (rule poll_v1_exhausted)
next
  assume "\<forall>i<40. \<exists>u. gw (served w + i) = Inr u \<and> \<not> terminal_v2 strings (Status u)"
  then show "fst (pollTransactionStatus_v2 strings gw b tk r w) = Inl timeout_v2"
    by (rule poll_v2_exhausted)
next
  assume "fst (pollTransactionStatus_v1 strings gw b tk r w) = Inr t"
  then show "terminal_v1 strings (Status t)"
    using poll_loop_v1_record [of strings gw b tk r 0 w t]
    by (cases "poll_loop_v1 strings gw b tk r 0 w") (simp add: pollTransactionStatus_v1_def)
next
  assume "fst (pollTransactionStatus_v2 strings gw b tk r w) = Inr t"
  then show "terminal_v2 strings (Status t)"
    using poll_loop_v2_record [of strings gw b tk r 1 w t]
    by (cases "poll_loop_v2 strings gw b tk r 1 w") (simp add: pollTransactionStatus_v2_def)
qed

text \<open>
  The theorem at a gateway that answers PENDING and then FAILED, and at the gateway that
  always answers PENDING.
\<close>

theorem failed_status_is_a_result_not_an_error_witness:
  "gw_failed (served start + 0) = Inr (sample_txn ''PENDING'')
   \<and> gw_failed (served start + 1) = Inr (sample_txn ''FAILED'')
   \<and> \<not> terminal_v1 ascii (Status (sample_txn ''PENDING''))
   \<and> \<not> terminal_v2 ascii (Status (sample_txn ''PENDING''))
   \<and> ToUpper ascii (Status (sample_txn ''FAILED'')) = ''FAILED''
   \<and> normalizeStatus ascii (Status (sample_txn ''FAILED'')) = ''FAILED''
   \<and> fst (pollTransactionStatus_v1 ascii gw_failed ''https://demo.campay.net/api'' ''tok''
            ''r1'' start) = Inr (sample_txn ''FAILED'')
   \<and> fst (pollTransactionStatus_v2 ascii gw_failed ''https://demo.campay.net/api'' ''tok''
            ''r1'' start) = Inr (sample_txn ''FAILED'')
   \<and> fst (pollTransactionStatus_v1 ascii gw_pending ''https://demo.campay.net/api'' ''tok''
            ''r1'' start) = Inl (Errorf ''transaction status check timed out after 60 attempts'')
   \<and> fst (pollTransactionStatus_v2 ascii gw_pending ''https://demo.campay.net/api'' ''tok''
            ''r1'' start) = Inl (Errorf ''transaction polling timed out'')"
proof -
  have q2: "\<forall>i<60. \<exists>u. gw_pending (served start + i) = Inr u \<and> \<not> terminal_v1 ascii (Status u)"
    "\<forall>i<40. \<exists>u. gw_pending (served start + i) = Inr u \<and> \<not> terminal_v2 ascii (Status u)"
    by (simp_all add: gw_pending_def sample_txn_def not_terminal_PENDING)
  have p: "gw_failed (served start + 0) = Inr (sample_txn ''PENDING'')
      \<and> gw_failed (served start + 1) = Inr (sample_txn ''FAILED'')
      \<and> \<not> terminal_v1 ascii (Status (sample_txn ''PENDING''))
      \<and> \<not> terminal_v2 ascii (Status (sample_txn ''PENDING''))
      \<and> ToUpper ascii (Status (sample_txn ''FAILED'')) = ''FAILED''
      \<and> normalizeStatus ascii (Status (sample_txn ''FAILED'')) = ''FAILED''"
    by (simp add: gw_failed_def start_def sample_txn_def not_terminal_PENDING
        normalizeStatus_def ascii_statuses)
  have e: "timeout_v1 = Errorf ''transaction status check timed out after 60 attempts''"
    "timeout_v2 = Errorf ''transaction polling timed out''"
    by (simp_all add: timeout_v1_def timeout_v2_def maxAttempts_v1_def fmt_d_def)
  note f = failed_status_is_a_result_not_an_error [where strings = ascii and gw = gw_failed
        and w = start and k = 1 and t = "sample_txn ''FAILED''"
        and b = "''https://demo.campay.net/api''" and tk = "''tok''" and r = "''r1''"]
  note g = failed_status_is_a_result_not_an_error [where strings = ascii and gw = gw_pending
        and w = start and k = 0 and t = "sample_txn ''FAILED''"
        and b = "''https://demo.campay.net/api''" and tk = "''tok''" and r = "''r1''"]
  have r1: "fst (pollTransactionStatus_v1 ascii gw_failed ''https://demo.campay.net/api'' ''tok''
            ''r1'' start) = Inr (sample_txn ''FAILED'')"
    by (rule f [THEN conjunct1, THEN mp])
       (simp add: gw_failed_def start_def sample_txn_def not_terminal_PENDING ascii_statuses
         maxAttempts_v1_def)
  have r2: "fst (pollTransactionStatus_v2 ascii gw_failed ''https://demo.campay.net/api'' ''tok''
            ''r1'' start) = Inr (sample_txn ''FAILED'')"
    by (rule f [THEN conjunct2, THEN conjunct1, THEN mp])
       (simp add: gw_failed_def start_def sample_txn_def not_terminal_PENDING ascii_statuses
         normalizeStatus_def maxAttempts_v2_def)
  have r3: "fst (pollTransactionStatus_v1 ascii gw_pending ''https://demo.campay.net/api'' ''tok''
            ''r1'' start) = Inl timeout_v1"
    by (rule g [THEN conjunct2, THEN conjunct2, THEN conjunct1, THEN mp]) (rule q2)
  have r4: "fst (pollTransactionStatus_v2 ascii gw_pending ''https://demo.campay.net/api'' ''tok''
            ''r1'' start) = Inl timeout_v2"
    by (rule g [THEN conjunct2, THEN conjunct2, THEN conjunct2, THEN conjunct1, THEN mp])
       (rule q2)
  show ?thesis
    using p r1 r2 r3 r4 by (simp add: e)
qed

subsection \<open>Answers that do not end the poll\<close>













subsection \<open>Input validation\<close>

declare promptUser_v2.simps [simp del]

lemmas console_defs = keyboard_def promptUser_v1_def ReadString_def fmt_Print_def
  ascii_def ascii_TrimSpace_def isSpace_def HasPrefix_def removeSpaces_def




subsection \<open>Amounts\<close>

declare digits.simps [simp del]

lemma digit_cases:
  "k < (10::nat) \<Longrightarrow>
   k = 0 \<or> k = 1 \<or> k = 2 \<or> k = 3 \<or> k = 4 \<or> k = 5 \<or> k = 6 \<or> k = 7 \<or> k = 8 \<or> k = 9"
  by arith

lemma digit_char:
  assumes "k < (10::nat)"
  shows "digitVal (''0123456789'' ! k) = int k \<and> isDigit (''0123456789'' ! k)
    \<and> ''0123456789'' ! k \<noteq> CHR ''-'' \<and> ''0123456789'' ! k \<noteq> CHR ''+''"
  using digit_cases [OF assms]
  by (elim disjE) (simp_all add: digitVal_def isDigit_def)

lemma parseDigits_append:
  "parseDigits a (xs @ [c]) = parseDigits a xs * 10 + digitVal c"
  by (induction xs arbitrary: a) simp_all

lemma digits_small: "n < 10 \<Longrightarrow> digits n = [''0123456789'' ! n]"
  by (subst digits.simps) simp

lemma digits_big:
  "\<not> n < 10 \<Longrightarrow> digits n = digits (n div 10) @ [''0123456789'' ! (n mod 10)]"
  by (subst digits.simps) simp

lemma parseDigits_digits: "parseDigits 0 (digits n) = int n"
proof (induction n rule: digits.induct)
  case (1 n)
  show ?case
  proof (cases "n < 10")
    case True
    then show ?thesis by (simp add: digits_small digit_char)
  next
    case False
    have m: "n mod 10 < 10" by simp
    have "parseDigits 0 (digits n) = int (n div 10) * 10 + int (n mod 10)"
      using "1.IH" [OF False] False digit_char [OF m]
      by (simp add: digits_big parseDigits_append)
    then show ?thesis by (simp add: zdiv_int zmod_int)
  qed
qed

lemma digits_all: "list_all isDigit (digits n)"
proof (induction n rule: digits.induct)
  case (1 n)
  show ?case
  proof (cases "n < 10")
    case True
    then show ?thesis by (simp add: digits_small digit_char)
  next
    case False
    have m: "n mod 10 < 10" by simp
    show ?thesis using "1.IH" [OF False] False digit_char [OF m] by (simp add: digits_big)
  qed
qed

lemma digits_hd: "\<exists>d ds. digits n = d # ds \<and> d \<noteq> CHR ''-'' \<and> d \<noteq> CHR ''+''"
proof (induction n rule: digits.induct)
  case (1 n)
  show ?case
  proof (cases "n < 10")
    case True
    then show ?thesis by (simp add: digits_small digit_char)
  next
    case False
    with "1.IH" obtain d ds where "digits (n div 10) = d # ds"
      "d \<noteq> CHR ''-''" "d \<noteq> CHR ''+''" by blast
    with False show ?thesis by (simp add: digits_big)
  qed
qed

lemma Atoi_digits:
  "Atoi (digits n) = (if 2 ^ 63 \<le> int n then Inl ErrRange else Inr (int n))"
proof -
  obtain d ds where d: "digits n = d # ds" "d \<noteq> CHR ''-''" "d \<noteq> CHR ''+''"
    using digits_hd by blast
  have a: "list_all isDigit (d # ds)" and p: "parseDigits 0 (d # ds) = int n"
    using digits_all [of n] parseDigits_digits [of n] d by simp_all
  have "Atoi (d # ds) = (if 2 ^ 63 \<le> parseDigits 0 (d # ds) then Inl ErrRange
                         else Inr (parseDigits 0 (d # ds)))"
    using d(2,3) a by (simp add: Atoi_def Let_def)
  then show ?thesis by (simp only: d(1) p)
qed

lemma Atoi_fmt_d:
  "0 \<le> m \<Longrightarrow> Atoi (fmt_d m) = (if 2 ^ 63 \<le> m then Inl ErrRange else Inr m)"
  by (simp add: fmt_d_def Atoi_digits)

text \<open>
  Claim C6, as the code has it. The amount the user entered is rejected when
  \<open>strconv.Atoi\<close> reports an error or the number is not positive, and accepted
  otherwise. The decimal form of a positive integer below \<open>2 ^ 63\<close> parses to that
  integer; from \<open>2 ^ 63\<close> on \<open>Atoi\<close> reports a range error, so such an amount is
  rejected. An accepted amount goes unchanged into the request: the second copy stores
  the parsed integer, the first copy the string that was typed.
\<close>

theorem amount_validation:
  "(promptUser_v2 strings ''Enter amount (XAF): '' c = (Inr amtStr, c1) \<longrightarrow>
      (Atoi amtStr = Inl e \<longrightarrow>
         promptAmount strings c = (Inl (Errorf ''amount must be a positive integer''), c1))
    \<and> (Atoi amtStr = Inr n \<and> n \<le> 0 \<longrightarrow>
         promptAmount strings c = (Inl (Errorf ''amount must be a positive integer''), c1))
    \<and> (Atoi amtStr = Inr n \<and> 0 < n \<longrightarrow> promptAmount strings c = (Inr n, c1)))
   \<and> (0 < m \<and> m < 2 ^ 63 \<longrightarrow> Atoi (fmt_d m) = Inr m)
   \<and> (2 ^ 63 \<le> m \<longrightarrow> Atoi (fmt_d m) = Inl ErrRange)
   \<and> (run_v2_inputs strings now c = (Inr req, c2) \<and> promptPhone strings c = (Inr phone, c3) \<longrightarrow>
        fst (promptAmount strings c3) = Inr (Amount req) \<and> 0 < Amount req)
   \<and> (promptUser_v1 strings '' Enter mobile money number (e.g., 237670123456): '' c = (Inr typed, c4)
        \<and> HasPrefix typed ''237'' \<and> length typed = 12
        \<and> promptUser_v1 strings '' Enter amount (XAF, no decimals): '' c4 = (Inr amountStr, c5) \<longrightarrow>
        (Atoi amountStr = Inl e \<or> (Atoi amountStr = Inr n \<and> n \<le> 0) \<longrightarrow>
           run_v1_inputs strings now c =
             (Inl (Errorf ''invalid amount. Must be a positive integer''), c5))
      \<and> (Atoi amountStr = Inr n \<and> 0 < n \<longrightarrow>
           fst (run_v1_inputs strings now c) \<noteq>
             Inl (Errorf ''invalid amount. Must be a positive integer'')))
   \<and> (run_v1_inputs strings now c = (Inr req1, c6)
        \<and> promptUser_v1 strings '' Enter mobile money number (e.g., 237670123456): '' c = (Inr typed, c4)
        \<longrightarrow>
        fst (promptUser_v1 strings '' Enter amount (XAF, no decimals): '' c4) = Inr (Amount req1)
        \<and> (\<exists>k. Atoi (Amount req1) = Inr k \<and> 0 < k))"
proof (intro conjI impI)
  assume "run_v2_inputs strings now c = (Inr req, c2) \<and> promptPhone strings c = (Inr phone, c3)"
  then show "fst (promptAmount strings c3) = Inr (Amount req)" "0 < Amount req"
    by (auto simp add: run_v2_inputs_def promptAmount_def
        split: prod.splits sum.splits if_splits)
next
  assume "run_v1_inputs strings now c = (Inr req1, c6)
        \<and> promptUser_v1 strings '' Enter mobile money number (e.g., 237670123456): '' c = (Inr typed, c4)"
  then show "fst (promptUser_v1 strings '' Enter amount (XAF, no decimals): '' c4) = Inr (Amount req1)"
    "\<exists>k. Atoi (Amount req1) = Inr k \<and> 0 < k"
    by (auto simp add: run_v1_inputs_def split: prod.splits sum.splits if_splits)
next
  assume "promptUser_v1 strings '' Enter mobile money number (e.g., 237670123456): '' c = (Inr typed, c4)
        \<and> HasPrefix typed ''237'' \<and> length typed = 12
        \<and> promptUser_v1 strings '' Enter amount (XAF, no decimals): '' c4 = (Inr amountStr, c5)"
    "Atoi amountStr = Inr n \<and> 0 < n"
  then show "fst (run_v1_inputs strings now c) \<noteq>
             Inl (Errorf ''invalid amount. Must be a positive integer'')"
    by (auto simp add: run_v1_inputs_def promptUser_v1_def
        split: prod.splits sum.splits if_splits)
next
  assume "promptUser_v1 strings '' Enter mobile money number (e.g., 237670123456): '' c = (Inr typed, c4)
        \<and> HasPrefix typed ''237'' \<and> length typed = 12
        \<and> promptUser_v1 strings '' Enter amount (XAF, no decimals): '' c4 = (Inr amountStr, c5)"
    "Atoi amountStr = Inl e \<or> (Atoi amountStr = Inr n \<and> n \<le> 0)"
  then show "run_v1_inputs strings now c =
             (Inl (Errorf ''invalid amount. Must be a positive integer''), c5)"
    by (auto simp add: run_v1_inputs_def)
qed (auto simp add: promptAmount_def Atoi_fmt_d)

lemmas amount_defs = run_v1_inputs_def run_v2_inputs_def promptPhone_def promptAmount_def
  promptUser_v2.simps console_defs Atoi_def isDigit_def digitVal_def fmt_d_def digits.simps

text \<open>The theorem at the amount 1000, and at \<open>2 ^ 63\<close>.\<close>

theorem amount_validation_witness:
  "promptUser_v2 ascii ''Enter amount (XAF): '' (keyboard [''1000'', ''test''])
     = (Inr ''1000'', \<lparr>stdin = [''test''], stdout = [''Enter amount (XAF): '']\<rparr>)
   \<and> Atoi ''1000'' = Inr 1000
   \<and> promptAmount ascii (keyboard [''1000'', ''test''])
     = (Inr 1000, \<lparr>stdin = [''test''], stdout = [''Enter amount (XAF): '']\<rparr>)
   \<and> Atoi (fmt_d 1000) = Inr 1000
   \<and> Atoi (fmt_d 9223372036854775808) = Inl ErrRange
   \<and> fst (run_v2_inputs ascii 1700000000 (keyboard [''670123456'', ''1000'', ''test'']))
     = Inr \<lparr>Amount = 1000, Currency = ''XAF'', From = ''237670123456'',
            Description = ''test'', ExternalReference = ''TXN-1700000000''\<rparr>
   \<and> fst (run_v1_inputs ascii 1700000000 (keyboard [''237670123456'', ''1000'', ''test'']))
     = Inr \<lparr>Amount = ''1000'', Currency = ''XAF'', From = ''237670123456'',
            Description = ''test'', ExternalReference = ''TXN-1700000000''\<rparr>"
proof -
  have a: "promptUser_v2 ascii ''Enter amount (XAF): '' (keyboard [''1000'', ''test''])
     = (Inr ''1000'', \<lparr>stdin = [''test''], stdout = [''Enter amount (XAF): '']\<rparr>)"
    by (simp add: promptUser_v2.simps console_defs)
  have b: "Atoi ''1000'' = Inr 1000"
    by (simp add: Atoi_def isDigit_def digitVal_def)
  have r2: "fst (run_v2_inputs ascii 1700000000 (keyboard [''670123456'', ''1000'', ''test'']))
     = Inr \<lparr>Amount = 1000, Currency = ''XAF'', From = ''237670123456'',
            Description = ''test'', ExternalReference = ''TXN-1700000000''\<rparr>"
    by (simp add: amount_defs)
  have r1: "fst (run_v1_inputs ascii 1700000000 (keyboard [''237670123456'', ''1000'', ''test'']))
     = Inr \<lparr>Amount = ''1000'', Currency = ''XAF'', From = ''237670123456'',
            Description = ''test'', ExternalReference = ''TXN-1700000000''\<rparr>"
    by (simp add: amount_defs)
  show ?thesis
    using a b r1 r2
      amount_validation [where strings = ascii and c = "keyboard [''1000'', ''test'']" and amtStr = "''1000''"
        and n = 1000 and m = 1000
        and ?c1.0 = "\<lparr>stdin = [''test''], stdout = [''Enter amount (XAF): '']\<rparr>"]
      amount_validation [where strings = ascii and m = 9223372036854775808]
    by simp
qed

text \<open>
  Claim C6 as stated fails at the positive integer \<open>2 ^ 63\<close>: both copies reject it.
\<close>

theorem amount_validation_counterexample:
  "(0::int) < 9223372036854775808
   \<and> fst (promptAmount ascii (keyboard [''9223372036854775808''])) =
       Inl (Errorf ''amount must be a positive integer'')
   \<and> fst (run_v1_inputs ascii 1700000000
            (keyboard [''237670123456'', ''9223372036854775808'', ''test''])) =
       Inl (Errorf ''invalid amount. Must be a positive integer'')"
  by (simp add: amount_defs)

subsection \<open>Prompting again\<close>








subsection \<open>Configuration\<close>

text \<open>
  Claim C10. With the credentials set, both copies choose the production URL exactly when
  the variable ENVIRONMENT is the string PROD, compared byte for byte, and the demo URL
  for every other value; an empty value becomes DEV before the choice, and so also gives
  the demo URL.
\<close>

theorem base_url_selection:
  "(dotenv = None \<and> getenv ''APP_USERNAME'' \<noteq> [] \<and> getenv ''APP_PASSWORD'' \<noteq> [] \<longrightarrow>
      run_v1_setup dotenv getenv =
        Inr \<lparr>username = getenv ''APP_USERNAME'', password = getenv ''APP_PASSWORD'',
             environment = (if getenv ''ENVIRONMENT'' = [] then ''DEV''
                            else getenv ''ENVIRONMENT''),
             apiBaseURL = (if getenv ''ENVIRONMENT'' = ''PROD''
                           then ''https://www.campay.net/api''
                           else ''https://demo.campay.net/api'')\<rparr>
    \<and> run_v2_setup dotenv getenv =
        Inr \<lparr>username = getenv ''APP_USERNAME'', password = getenv ''APP_PASSWORD'',
             environment = (if getenv ''ENVIRONMENT'' = [] then ''DEV''
                            else getenv ''ENVIRONMENT''),
             apiBaseURL = (if getenv ''ENVIRONMENT'' = ''PROD''
                           then ''https://www.campay.net/api''
                           else ''https://demo.campay.net/api'')\<rparr>)
   \<and> (run_v1_setup dotenv getenv = Inr cfg \<or> run_v2_setup dotenv getenv = Inr cfg \<longrightarrow>
        (apiBaseURL cfg = ''https://www.campay.net/api'' \<longleftrightarrow> getenv ''ENVIRONMENT'' = ''PROD'')
      \<and> (apiBaseURL cfg = ''https://demo.campay.net/api'' \<longleftrightarrow> getenv ''ENVIRONMENT'' \<noteq> ''PROD''))"
  by (auto simp add: run_v1_setup_def run_v2_setup_def Let_def split: option.splits if_splits)

text \<open>The theorem at the values prod, production, PROD and at an unset variable.\<close>

theorem base_url_selection_witness:
  "run_v1_setup None (env_of [(''APP_USERNAME'', ''u''), (''APP_PASSWORD'', ''p''),
                              (''ENVIRONMENT'', ''prod'')]) =
     Inr \<lparr>username = ''u'', password = ''p'', environment = ''prod'',
          apiBaseURL = ''https://demo.campay.net/api''\<rparr>
   \<and> run_v2_setup None (env_of [(''APP_USERNAME'', ''u''), (''APP_PASSWORD'', ''p''),
                                (''ENVIRONMENT'', ''production'')]) =
     Inr \<lparr>username = ''u'', password = ''p'', environment = ''production'',
          apiBaseURL = ''https://demo.campay.net/api''\<rparr>
   \<and> run_v1_setup None (env_of [(''APP_USERNAME'', ''u''), (''APP_PASSWORD'', ''p''),
                                (''ENVIRONMENT'', ''PROD'')]) =
     Inr \<lparr>username = ''u'', password = ''p'', environment = ''PROD'',
          apiBaseURL = ''https://www.campay.net/api''\<rparr>
   \<and> run_v2_setup None (env_of [(''APP_USERNAME'', ''u''), (''APP_PASSWORD'', ''p'')]) =
     Inr \<lparr>username = ''u'', password = ''p'', environment = ''DEV'',
          apiBaseURL = ''https://demo.campay.net/api''\<rparr>"
  using
    base_url_selection [of None "env_of [(''APP_USERNAME'', ''u''), (''APP_PASSWORD'', ''p''),
                              (''ENVIRONMENT'', ''prod'')]"]
    base_url_selection [of None "env_of [(''APP_USERNAME'', ''u''), (''APP_PASSWORD'', ''p''),
                              (''ENVIRONMENT'', ''production'')]"]
    base_url_selection [of None "env_of [(''APP_USERNAME'', ''u''), (''APP_PASSWORD'', ''p''),
                              (''ENVIRONMENT'', ''PROD'')]"]
    base_url_selection [of None "env_of [(''APP_USERNAME'', ''u''), (''APP_PASSWORD'', ''p'')]"]
  by (simp add: env_of_def)

subsection \<open>Errors of the gateway\<close>

lemma sublist_mid: "sublist xs (ps @ xs @ ss)"
  by (auto simp add: sublist_def)

text \<open>
  Claim C4, as the code has it. In the second copy the error for an answer that is not
  200 carries the code and the message of the gateway when the body decodes without error
  and the message is not empty, and the body itself, byte for byte, otherwise. In the
  first copy the error is always built from the code and the message that were decoded,
  whether or not decoding failed, and the body never appears in it.
\<close>

theorem error_decoding:
  "(json_Unmarshal body = (None, er) \<and> Message er \<noteq> [] \<longrightarrow>
      formatAPIError json_Unmarshal status body =
        Errorf (''API error ('' @ fmt_d status @ ''): '' @ Code er @ '' - '' @ Message er)
      \<and> sublist (Code er) (Error (formatAPIError json_Unmarshal status body))
      \<and> sublist (Message er) (Error (formatAPIError json_Unmarshal status body)))
   \<and> (json_Unmarshal body = (err, er) \<and> (err \<noteq> None \<or> Message er = []) \<longrightarrow>
      formatAPIError json_Unmarshal status body =
        Errorf (''API error ('' @ fmt_d status @ ''): '' @ body)
      \<and> sublist body (Error (formatAPIError json_Unmarshal status body)))
   \<and> (status \<noteq> 200 \<longrightarrow>
      getAuthToken_v2 json_Unmarshal unmarshalToken (Reply status body readErr) =
        Inl (formatAPIError json_Unmarshal status body))
   \<and> (status \<noteq> 200 \<and> json_Unmarshal body = (err, er) \<longrightarrow>
      getAuthToken_v1 json_Unmarshal unmarshalToken (Reply status body None) =
        Inl (Errorf (''authentication failed (status '' @ fmt_d status @ ''): '' @ Code er
               @ '' - '' @ Message er)))"
proof (intro conjI impI)
  assume a: "json_Unmarshal body = (None, er) \<and> Message er \<noteq> []"
  then show f: "formatAPIError json_Unmarshal status body =
        Errorf (''API error ('' @ fmt_d status @ ''): '' @ Code er @ '' - '' @ Message er)"
    by (simp add: formatAPIError_def)
  show "sublist (Code er) (Error (formatAPIError json_Unmarshal status body))"
    using sublist_mid [of "Code er" "''API error ('' @ fmt_d status @ ''): ''"
        "'' - '' @ Message er"]
    by (simp add: f)
  show "sublist (Message er) (Error (formatAPIError json_Unmarshal status body))"
    using sublist_mid [of "Message er"
        "''API error ('' @ fmt_d status @ ''): '' @ Code er @ '' - ''" "[]"]
    by (simp add: f)
next
  assume a: "json_Unmarshal body = (err, er) \<and> (err \<noteq> None \<or> Message er = [])"
  then show f: "formatAPIError json_Unmarshal status body =
        Errorf (''API error ('' @ fmt_d status @ ''): '' @ body)"
    by (auto simp add: formatAPIError_def)
  show "sublist body (Error (formatAPIError json_Unmarshal status body))"
    using sublist_mid [of body "''API error ('' @ fmt_d status @ ''): ''" "[]"]
    by (simp add: f)
next
  assume "status \<noteq> 200"
  then show "getAuthToken_v2 json_Unmarshal unmarshalToken (Reply status body readErr) =
        Inl (formatAPIError json_Unmarshal status body)"
    by (simp add: getAuthToken_v2_def)
next
  assume "status \<noteq> 200 \<and> json_Unmarshal body = (err, er)"
  then show "getAuthToken_v1 json_Unmarshal unmarshalToken (Reply status body None) =
        Inl (Errorf (''authentication failed (status '' @ fmt_d status @ ''): '' @ Code er
               @ '' - '' @ Message er))"
    by (simp add: getAuthToken_v1_def)
qed

lemma sample_decoding:
  "sample_Unmarshal envelope_body = (None, \<lparr>Code = ''ER201'', Message = ''Invalid amount''\<rparr>)"
  "sample_Unmarshal ''internal error'' =
     (Some (Errorf ''invalid character i looking for beginning of value''),
      \<lparr>Code = [], Message = []\<rparr>)"
  by (simp_all add: sample_Unmarshal_def envelope_body_def)

lemma status_texts: "fmt_d 400 = ''400''" "fmt_d 500 = ''500''"
  by (simp_all add: fmt_d_def digits.simps)

lemma sample_sublists:
  "sublist ''ER201'' ''API error (400): ER201 - Invalid amount''"
  "sublist ''Invalid amount'' ''API error (400): ER201 - Invalid amount''"
  "sublist ''internal error'' ''API error (500): internal error''"
  by code_simp+

text \<open>The two answers of the scenario in the specification.\<close>

theorem error_decoding_witness:
  "sample_Unmarshal envelope_body = (None, \<lparr>Code = ''ER201'', Message = ''Invalid amount''\<rparr>)
   \<and> formatAPIError sample_Unmarshal 400 envelope_body =
       Errorf ''API error (400): ER201 - Invalid amount''
   \<and> sublist ''ER201'' (Error (formatAPIError sample_Unmarshal 400 envelope_body))
   \<and> sublist ''Invalid amount'' (Error (formatAPIError sample_Unmarshal 400 envelope_body))
   \<and> formatAPIError sample_Unmarshal 500 ''internal error'' =
       Errorf ''API error (500): internal error''
   \<and> sublist ''internal error'' (Error (formatAPIError sample_Unmarshal 500 ''internal error''))
   \<and> getAuthToken_v2 sample_Unmarshal sample_Unmarshal_token (Reply 400 envelope_body None) =
       Inl (Errorf ''API error (400): ER201 - Invalid amount'')
   \<and> getAuthToken_v1 sample_Unmarshal sample_Unmarshal_token (Reply 400 envelope_body None) =
       Inl (Errorf ''authentication failed (status 400): ER201 - Invalid amount'')"
  using sample_decoding
    error_decoding [where json_Unmarshal = sample_Unmarshal and body = envelope_body
      and status = 400 and er = "\<lparr>Code = ''ER201'', Message = ''Invalid amount''\<rparr>"
      and err = None and unmarshalToken = sample_Unmarshal_token and readErr = None]
    error_decoding [where json_Unmarshal = sample_Unmarshal and body = "''internal error''"
      and status = 500 and er = "\<lparr>Code = [], Message = []\<rparr>"
      and err = "Some (Errorf ''invalid character i looking for beginning of value'')"
      and unmarshalToken = sample_Unmarshal_token and readErr = None]
    sample_sublists
  by (simp add: status_texts)

text \<open>
  Claim C4 as stated fails on the first copy: for the status 500 with the body
  \<open>internal error\<close> its error has an empty code and an empty message and does not
  contain the body.
\<close>

theorem error_decoding_counterexample:
  "sample_Unmarshal ''internal error'' =
     (Some (Errorf ''invalid character i looking for beginning of value''),
      \<lparr>Code = [], Message = []\<rparr>)
   \<and> getAuthToken_v1 sample_Unmarshal sample_Unmarshal_token
         (Reply 500 ''internal error'' None) =
       Inl (Errorf ''authentication failed (status 500):  - '')
   \<and> \<not> sublist ''internal error'' ''authentication failed (status 500):  - ''"
proof -
  have "\<not> sublist ''internal error'' ''authentication failed (status 500):  - ''"
    by code_simp
  then show ?thesis
    by (simp add: sample_decoding getAuthToken_v1_def status_texts)
qed

end
